theory Spec2Isabelle
  imports Complex_Main
begin

section \<open>Big Drip Kicks: the sale transaction path\<close>

text \<open>
  The point-of-sale screen (\<^verbatim>\<open>src/components/Sales.tsx\<close>) computes the cart totals in the
  browser and writes a sale with two separate store requests: one insert into \<^verbatim>\<open>sales\<close>,
  then one multi-row insert into \<^verbatim>\<open>sale_items\<close>. The store (PostgreSQL) runs row triggers
  on these inserts. The store modelled here is the one the migrations leave behind when
  they are applied in order (initial schema, audit logs, complete setup, quick-sale
  triggers):

  \<^item> \<^verbatim>\<open>CREATE OR REPLACE FUNCTION\<close> replaces a function body, so every trigger runs the body
    of the last migration that defines its function (\<^verbatim>\<open>set_sale_number\<close>,
    \<^verbatim>\<open>update_product_stock\<close>, \<^verbatim>\<open>check_low_stock\<close> of the quick-sale-triggers migration);
  \<^item> a trigger stays until it is dropped by name, and the later migrations create their
    triggers under new names. The tables of the sale path therefore carry
    \<^item> on \<^verbatim>\<open>sales\<close>, before insert: \<^verbatim>\<open>set_sale_number_trigger\<close> and
      \<^verbatim>\<open>trigger_set_sale_number\<close> (both \<^verbatim>\<open>set_sale_number\<close>); after insert or update:
      \<^verbatim>\<open>audit_sales_trigger\<close> (\<^verbatim>\<open>create_audit_log\<close>) and \<^verbatim>\<open>sales_audit_trigger\<close>
      (\<^verbatim>\<open>audit_trigger_function\<close>);
    \<^item> on \<^verbatim>\<open>sale_items\<close>, before insert: \<^verbatim>\<open>validate_stock_before_sale_trigger\<close>; after
      insert: \<^verbatim>\<open>audit_sale_items_trigger\<close>, \<^verbatim>\<open>calculate_sale_totals_trigger\<close>,
      \<^verbatim>\<open>trigger_update_product_stock\<close> and \<^verbatim>\<open>update_product_stock_trigger\<close> (both
      \<^verbatim>\<open>update_product_stock\<close>);
    \<^item> on \<^verbatim>\<open>products\<close>, after update: \<^verbatim>\<open>audit_products_trigger\<close> (\<^verbatim>\<open>create_audit_log\<close>),
      \<^verbatim>\<open>check_low_stock_trigger\<close>, \<^verbatim>\<open>products_audit_trigger\<close> (\<^verbatim>\<open>audit_trigger_function\<close>)
      and \<^verbatim>\<open>trigger_check_low_stock\<close> (both \<^verbatim>\<open>check_low_stock\<close>);
  \<^item> triggers of one kind on one table fire in the order of their names.

  Modelling conventions:
  \<^item> amounts are rationals: JavaScript numbers in the client are taken as exact, and a
    value stored in a \<^verbatim>\<open>decimal(10,2)\<close> column is rounded to two decimals, with an error
    when it does not fit;
  \<^item> quantities and stock levels are integers (\<^verbatim>\<open>integer\<close> columns, range not modelled);
  \<^item> a \<^verbatim>\<open>uuid\<close> is a natural number and \<^verbatim>\<open>gen_random_uuid()\<close> hands out the next unused
    one, so that two generated identifiers never coincide;
  \<^item> a table is the list of its rows in insertion order; only the columns that the sale
    path reads or writes are kept; row-level security and the references to \<^verbatim>\<open>profiles\<close>
    and \<^verbatim>\<open>customers\<close> are not modelled;
  \<^item> a statement either succeeds with the new store or fails with an error and leaves every
    table as it was before the statement (the sequence \<^verbatim>\<open>sale_number_seq\<close> is not rolled
    back, as in PostgreSQL); an error raised in a trigger fails the statement that fired
    it.
\<close>

type_synonym uuid = nat
type_synonym timestamptz = nat

subsection \<open>Client state (Sales.tsx)\<close>

record Product =
  id :: uuid
  selling_price :: rat
  stock_quantity :: int

record CartItem =
  product :: Product
  quantity :: int
  unit_price :: rat
  total_price :: rat

datatype discount_kind = flat | percentage

datatype payment_kind = cash | card | orange_money | mtn_money | bank

text \<open>The component state of \<^verbatim>\<open>Sales()\<close> that the sale path reads; \<open>profile_id\<close> is
  \<^verbatim>\<open>profile?.id\<close>, absent when no profile is loaded.\<close>

record pos_state =
  products :: "Product list"
  cart :: "CartItem list"
  selectedCustomer :: "uuid option"
  paymentMethod :: payment_kind
  discountType :: discount_kind
  discountValue :: rat
  taxRate :: rat
  amountPaid :: rat
  profile_id :: "uuid option"

subsection \<open>Cart calculator\<close>

definition calculateSubtotal :: "pos_state \<Rightarrow> rat" where
  "calculateSubtotal st = foldl (\<lambda>sum item. sum + total_price item) 0 (cart st)"

definition calculateDiscountAmount :: "pos_state \<Rightarrow> rat" where
  "calculateDiscountAmount st =
     (let subtotal = calculateSubtotal st in
      if discountType st = percentage then (subtotal * discountValue st) / 100
      else discountValue st)"

definition calculateTaxAmount :: "pos_state \<Rightarrow> rat" where
  "calculateTaxAmount st =
     (let subtotalAfterDiscount = calculateSubtotal st - calculateDiscountAmount st in
      subtotalAfterDiscount * taxRate st)"

definition calculateTotal :: "pos_state \<Rightarrow> rat" where
  "calculateTotal st = calculateSubtotal st - calculateDiscountAmount st + calculateTaxAmount st"

definition calculateChangeDue :: "pos_state \<Rightarrow> rat" where
  "calculateChangeDue st =
     (let total = calculateTotal st in
      if amountPaid st > total then amountPaid st - total else 0)"

text \<open>The discount rule in the words of the specification, for comparison with
  \<open>calculateDiscountAmount\<close>: a percentage value is clamped to \<open>[0, 100]\<close>, a flat value is
  taken as it is.\<close>

definition discountAmount_spec :: "rat \<Rightarrow> discount_kind \<Rightarrow> rat \<Rightarrow> rat" where
  "discountAmount_spec subtotal ty v =
     (case ty of
        percentage \<Rightarrow> subtotal * (max 0 (min 100 v)) / 100
      | flat \<Rightarrow> v)"

subsection \<open>Store rows\<close>

record products_row =
  p_id :: uuid
  p_selling_price :: rat
  p_stock_quantity :: int
  p_low_stock_threshold :: int

text \<open>\<open>s_sale_number\<close> is absent in a row that has not yet passed the
  \<^verbatim>\<open>BEFORE INSERT\<close> trigger; the column itself is \<^verbatim>\<open>UNIQUE NOT NULL\<close>.\<close>

record sales_row =
  s_id :: uuid
  s_sale_number :: "string option"
  s_customer_id :: "uuid option"
  s_cashier_id :: "uuid option"
  s_subtotal :: rat
  s_discount_type :: "discount_kind option"
  s_discount_value :: "rat option"
  s_discount_amount :: "rat option"
  s_total_amount :: rat
  s_payment_method :: payment_kind

record sale_items_row =
  si_id :: uuid
  si_sale_id :: uuid
  si_product_id :: uuid
  si_quantity :: int
  si_unit_price :: rat
  si_total_price :: rat

record low_stock_alerts_row =
  a_id :: uuid
  a_product_id :: uuid
  a_current_stock :: int
  a_threshold :: int
  a_is_acknowledged :: bool
  a_acknowledged_by :: "uuid option"
  a_acknowledged_at :: "timestamptz option"

text \<open>\<^verbatim>\<open>to_jsonb(OLD)\<close> and \<^verbatim>\<open>to_jsonb(NEW)\<close>: the snapshot of a row of an audited table.\<close>

datatype row_snapshot =
    Products_json products_row
  | Sales_json sales_row
  | Sale_items_json sale_items_row

fun row_id :: "row_snapshot \<Rightarrow> uuid" where
  "row_id (Products_json r) = p_id r"
| "row_id (Sales_json r) = s_id r"
| "row_id (Sale_items_json r) = si_id r"

text \<open>The event of a row trigger: \<^verbatim>\<open>TG_OP\<close> with the \<^verbatim>\<open>OLD\<close> and \<^verbatim>\<open>NEW\<close> rows it provides.\<close>

datatype trigger_event =
    On_INSERT row_snapshot
  | On_UPDATE row_snapshot row_snapshot
  | On_DELETE row_snapshot

record audit_logs_row =
  al_user_id :: "uuid option"
  al_action :: string
  al_table_name :: string
  al_record_id :: uuid
  al_old_values :: "row_snapshot option"
  al_new_values :: "row_snapshot option"

text \<open>\<open>sale_number_seq\<close> holds the value the next \<^verbatim>\<open>nextval('sale_number_seq')\<close> returns
  (\<^verbatim>\<open>START 1\<close>); \<open>next_uuid\<close> the next identifier of \<^verbatim>\<open>gen_random_uuid()\<close>.\<close>

record store =
  tbl_products :: "products_row list"
  tbl_sales :: "sales_row list"
  tbl_sale_items :: "sale_items_row list"
  tbl_low_stock_alerts :: "low_stock_alerts_row list"
  tbl_audit_logs :: "audit_logs_row list"
  sale_number_seq :: nat
  next_uuid :: uuid

text \<open>The alerts of \<^verbatim>\<open>processSale\<close> before any request, and the errors of the store:
  the exception of \<^verbatim>\<open>validate_stock_before_sale\<close>, violated constraints (23502, 23505,
  23503), a value outside its column (22003), an \<^verbatim>\<open>ON CONFLICT\<close> target without a
  constraint (42P10), and a read that returns no row.\<close>

datatype error =
    EmptyCart
  | NegativeTotal
  | InsufficientPayment
  | InsufficientStock uuid int int
  | NotNullViolation string
  | UniqueViolation string
  | ForeignKeyViolation string
  | NumericValueOutOfRange
  | InvalidColumnReference string
  | NoRowReturned

subsection \<open>Sale numbers\<close>

text \<open>\<^verbatim>\<open>n::text\<close>, the decimal digits of a counter value.\<close>

definition digit_char :: "nat \<Rightarrow> char" where
  "digit_char k = char_of (48 + k)"

fun text_of_nat :: "nat \<Rightarrow> string" where
  "text_of_nat n =
     (if n < 10 then [digit_char n] else text_of_nat (n div 10) @ [digit_char (n mod 10)])"

declare text_of_nat.simps [simp del]

text \<open>PostgreSQL's \<^verbatim>\<open>LPAD(s, n, fill)\<close> with a one-character fill: a string longer than
  \<open>n\<close> is truncated to its first \<open>n\<close> characters.\<close>

definition lpad :: "string \<Rightarrow> nat \<Rightarrow> char \<Rightarrow> string" where
  "lpad s n fill = (if n \<le> length s then take n s else replicate (n - length s) fill @ s)"

text \<open>\<^verbatim>\<open>'BD-' || LPAD(k::text, 6, '0')\<close>, the sale number of the counter value \<open>k\<close>.\<close>

definition sale_number_text :: "nat \<Rightarrow> string" where
  "sale_number_text k = ''BD-'' @ lpad (text_of_nat k) 6 (CHR ''0'')"





text \<open>\<^verbatim>\<open>set_sale_number()\<close> of the quick-sale-triggers migration, which replaces the
  body of the initial schema (and leaves \<^verbatim>\<open>generate_sale_number\<close> without a caller): a row
  without a sale number takes the next value of the sequence.\<close>

definition nextval :: "store \<Rightarrow> nat \<times> store" where
  "nextval d = (sale_number_seq d, d\<lparr>sale_number_seq := sale_number_seq d + 1\<rparr>)"

definition set_sale_number :: "sales_row \<Rightarrow> store \<Rightarrow> sales_row \<times> store" where
  "set_sale_number NEW d =
     (if s_sale_number NEW = None \<or> s_sale_number NEW = Some []
      then (let (k, d') = nextval d in (NEW\<lparr>s_sale_number := Some (sale_number_text k)\<rparr>, d'))
      else (NEW, d))"

subsection \<open>Values of a \<^verbatim>\<open>decimal(10,2)\<close> column\<close>

text \<open>PostgreSQL rounds a numeric value to the scale of the column, ties away from zero,
  and raises \<^verbatim>\<open>numeric field overflow\<close> (22003) when the rounded value has more than eight
  digits before the decimal point.\<close>

definition round_numeric :: "rat \<Rightarrow> rat" where
  "round_numeric x =
     (if 0 \<le> x then of_int (floor (x * 100 + 1 / 2)) / 100
      else - (of_int (floor (- x * 100 + 1 / 2)) / 100))"

definition decimal_10_2 :: "rat \<Rightarrow> error + rat" where
  "decimal_10_2 x =
     (let y = round_numeric x in
      if abs y < 100000000 then Inr y else Inl NumericValueOutOfRange)"

definition decimal_10_2_null :: "rat option \<Rightarrow> error + rat option" where
  "decimal_10_2_null v =
     (case v of
        None \<Rightarrow> Inr None
      | Some x \<Rightarrow> (case decimal_10_2 x of Inl e \<Rightarrow> Inl e | Inr y \<Rightarrow> Inr (Some y)))"

subsection \<open>Audit triggers\<close>

text \<open>\<^verbatim>\<open>create_audit_log()\<close> (quick-sale triggers) and \<^verbatim>\<open>audit_trigger_function()\<close> (audit
  logs migration): each is one \<^verbatim>\<open>INSERT INTO audit_logs\<close> whose values depend on
  \<^verbatim>\<open>TG_OP\<close>; \<open>uid\<close> is \<^verbatim>\<open>auth.uid()\<close> of the session and \<open>tbl\<close> is \<^verbatim>\<open>TG_TABLE_NAME\<close>. The two
  functions write the same columns; \<^verbatim>\<open>audit_trigger_function\<close> also sets \<^verbatim>\<open>created_at\<close> to
  \<^verbatim>\<open>now()\<close>, which is the column default.\<close>

fun audit_values :: "uuid option \<Rightarrow> string \<Rightarrow> trigger_event \<Rightarrow> audit_logs_row" where
  "audit_values uid tbl (On_INSERT NEW) =
     \<lparr>al_user_id = uid, al_action = ''INSERT'', al_table_name = tbl,
      al_record_id = row_id NEW, al_old_values = None, al_new_values = Some NEW\<rparr>"
| "audit_values uid tbl (On_UPDATE OLD NEW) =
     \<lparr>al_user_id = uid, al_action = ''UPDATE'', al_table_name = tbl,
      al_record_id = row_id NEW, al_old_values = Some OLD, al_new_values = Some NEW\<rparr>"
| "audit_values uid tbl (On_DELETE OLD) =
     \<lparr>al_user_id = uid, al_action = ''DELETE'', al_table_name = tbl,
      al_record_id = row_id OLD, al_old_values = Some OLD, al_new_values = None\<rparr>"

definition create_audit_log :: "uuid option \<Rightarrow> string \<Rightarrow> trigger_event \<Rightarrow> store \<Rightarrow> store" where
  "create_audit_log uid tbl ev d =
     d\<lparr>tbl_audit_logs := tbl_audit_logs d @ [audit_values uid tbl ev]\<rparr>"

definition audit_trigger_function ::
    "uuid option \<Rightarrow> string \<Rightarrow> trigger_event \<Rightarrow> store \<Rightarrow> store" where
  "audit_trigger_function uid tbl ev d =
     d\<lparr>tbl_audit_logs := tbl_audit_logs d @ [audit_values uid tbl ev]\<rparr>"

subsection \<open>Low-stock alerts\<close>

text \<open>\<^verbatim>\<open>check_low_stock()\<close> of the quick-sale-triggers migration, the body that both
  triggers on \<^verbatim>\<open>products\<close> run. Its insert names the conflict target \<^verbatim>\<open>(product_id)\<close>, and
  no migration puts a unique constraint or index on \<^verbatim>\<open>low_stock_alerts(product_id)\<close>: the
  statement is rejected (42P10, no unique or exclusion constraint matching the
  \<^verbatim>\<open>ON CONFLICT\<close> specification) whenever it is reached, that is, whenever the stock is at
  or below the threshold. Above the threshold the function does nothing.\<close>

definition check_low_stock :: "products_row \<Rightarrow> store \<Rightarrow> error + store" where
  "check_low_stock NEW d =
     (if p_stock_quantity NEW \<le> p_low_stock_threshold NEW
      then Inl (InvalidColumnReference ''product_id'')
      else Inr d)"

text \<open>\<^verbatim>\<open>acknowledgeAlert(alertId)\<close> of the \<^verbatim>\<open>useLowStockAlerts\<close> hook: one
  \<^verbatim>\<open>UPDATE low_stock_alerts SET is_acknowledged = true, acknowledged_at = now WHERE id = alertId\<close>;
  \<open>now\<close> is the client's clock at the call. No trigger is installed on the alert table.\<close>

definition acknowledgeAlert :: "timestamptz \<Rightarrow> uuid \<Rightarrow> store \<Rightarrow> store" where
  "acknowledgeAlert now alertId d =
     d\<lparr>tbl_low_stock_alerts := map (\<lambda>a.
          if a_id a = alertId
          then a\<lparr>a_is_acknowledged := True, a_acknowledged_at := Some now\<rparr>
          else a) (tbl_low_stock_alerts d)\<rparr>"

subsection \<open>Statements on products and sales, with their row triggers\<close>

text \<open>Row triggers that may raise an error, run one after the other: the first error ends
  the run.\<close>

fun fold_err :: "('a \<Rightarrow> 's \<Rightarrow> error + 's) \<Rightarrow> 'a list \<Rightarrow> 's \<Rightarrow> error + 's" where
  "fold_err f [] s = Inr s"
| "fold_err f (x # xs) s = (case f x s of Inl e \<Rightarrow> Inl e | Inr s' \<Rightarrow> fold_err f xs s')"

text \<open>\<^verbatim>\<open>UPDATE products SET ... WHERE ...\<close>. The \<^verbatim>\<open>AFTER UPDATE\<close> row triggers on
  \<^verbatim>\<open>products\<close> fire for every updated row at the end of the statement, in name order:
  \<^verbatim>\<open>audit_products_trigger\<close>, \<^verbatim>\<open>check_low_stock_trigger\<close>, \<^verbatim>\<open>products_audit_trigger\<close>,
  \<^verbatim>\<open>trigger_check_low_stock\<close>. The last one is declared
  \<^verbatim>\<open>AFTER UPDATE OF stock_quantity, low_stock_threshold\<close>: it fires when the statement sets
  one of these columns (\<open>of_stock\<close>).\<close>

definition products_after_update ::
    "uuid option \<Rightarrow> bool \<Rightarrow> products_row \<times> products_row \<Rightarrow> store \<Rightarrow> error + store" where
  "products_after_update uid of_stock on d =
     (case on of (OLD, NEW) \<Rightarrow>
        (case check_low_stock NEW
                (create_audit_log uid ''products''
                   (On_UPDATE (Products_json OLD) (Products_json NEW)) d) of
           Inl e \<Rightarrow> Inl e
         | Inr d1 \<Rightarrow>
             (let d2 = audit_trigger_function uid ''products''
                         (On_UPDATE (Products_json OLD) (Products_json NEW)) d1
              in if of_stock then check_low_stock NEW d2 else Inr d2)))"

definition update_products ::
    "uuid option \<Rightarrow> bool \<Rightarrow> (products_row \<Rightarrow> bool) \<Rightarrow> (products_row \<Rightarrow> products_row)
       \<Rightarrow> store \<Rightarrow> error + store" where
  "update_products uid of_stock wh upd d =
     (let changed = map (\<lambda>p. (p, upd p)) (filter wh (tbl_products d));
          d1 = d\<lparr>tbl_products := map (\<lambda>p. if wh p then upd p else p) (tbl_products d)\<rparr>
      in fold_err (products_after_update uid of_stock) changed d1)"

text \<open>\<^verbatim>\<open>UPDATE sales SET ... WHERE ...\<close>, where computing the new values of a row may fail
  (a value that does not fit its column); \<^verbatim>\<open>audit_sales_trigger\<close> and
  \<^verbatim>\<open>sales_audit_trigger\<close> fire after each updated row. \<open>update_rows\<close> returns the new table
  and the pairs of old and new row.\<close>

fun update_rows ::
    "('r \<Rightarrow> bool) \<Rightarrow> ('r \<Rightarrow> error + 'r) \<Rightarrow> 'r list \<Rightarrow> error + ('r list \<times> ('r \<times> 'r) list)" where
  "update_rows wh upd [] = Inr ([], [])"
| "update_rows wh upd (r # rs) =
     (if wh r
      then (case upd r of
              Inl e \<Rightarrow> Inl e
            | Inr r' \<Rightarrow>
                (case update_rows wh upd rs of
                   Inl e \<Rightarrow> Inl e
                 | Inr (rs', changed) \<Rightarrow> Inr (r' # rs', (r, r') # changed)))
      else (case update_rows wh upd rs of
              Inl e \<Rightarrow> Inl e
            | Inr (rs', changed) \<Rightarrow> Inr (r # rs', changed)))"

definition sales_after_update ::
    "uuid option \<Rightarrow> sales_row \<times> sales_row \<Rightarrow> store \<Rightarrow> store" where
  "sales_after_update uid on d =
     (case on of (OLD, NEW) \<Rightarrow>
        audit_trigger_function uid ''sales'' (On_UPDATE (Sales_json OLD) (Sales_json NEW))
          (create_audit_log uid ''sales'' (On_UPDATE (Sales_json OLD) (Sales_json NEW)) d))"

definition update_sales ::
    "uuid option \<Rightarrow> (sales_row \<Rightarrow> bool) \<Rightarrow> (sales_row \<Rightarrow> error + sales_row)
       \<Rightarrow> store \<Rightarrow> error + store" where
  "update_sales uid wh upd d =
     (case update_rows wh upd (tbl_sales d) of
        Inl e \<Rightarrow> Inl e
      | Inr (rows, changed) \<Rightarrow>
          Inr (fold (sales_after_update uid) changed (d\<lparr>tbl_sales := rows\<rparr>)))"

subsection \<open>Triggers on sale items\<close>

text \<open>\<^verbatim>\<open>validate_stock_before_sale()\<close>, \<^verbatim>\<open>BEFORE INSERT\<close>. For a product that does not
  exist \<^verbatim>\<open>current_stock\<close> is \<^verbatim>\<open>NULL\<close>, the comparison is not true and nothing is raised.\<close>

definition validate_stock_before_sale :: "sale_items_row \<Rightarrow> store \<Rightarrow> error + sale_items_row" where
  "validate_stock_before_sale NEW d =
     (case List.find (\<lambda>p. p_id p = si_product_id NEW) (tbl_products d) of
        None \<Rightarrow> Inr NEW
      | Some p \<Rightarrow>
          (let current_stock = p_stock_quantity p in
           if current_stock < si_quantity NEW
           then Inl (InsufficientStock (si_product_id NEW) (si_quantity NEW) current_stock)
           else Inr NEW))"

text \<open>\<^verbatim>\<open>update_product_stock()\<close>, \<^verbatim>\<open>AFTER INSERT\<close>: an update of \<^verbatim>\<open>products\<close> that sets
  \<^verbatim>\<open>stock_quantity\<close> (and \<^verbatim>\<open>updated_at\<close>, not modelled).\<close>

definition update_product_stock ::
    "uuid option \<Rightarrow> sale_items_row \<Rightarrow> store \<Rightarrow> error + store" where
  "update_product_stock uid NEW d =
     update_products uid True (\<lambda>p. p_id p = si_product_id NEW)
       (\<lambda>p. p\<lparr>p_stock_quantity := p_stock_quantity p - si_quantity NEW\<rparr>) d"

text \<open>\<^verbatim>\<open>calculate_sale_totals()\<close>, \<^verbatim>\<open>AFTER INSERT\<close>. \<^verbatim>\<open>NEW\<close> is the sale item, and the
  function selects and updates by \<^verbatim>\<open>NEW.id\<close>, the identifier of the item itself. The
  variable \<^verbatim>\<open>sale_total\<close> is a \<^verbatim>\<open>numeric(10,2)\<close>, as are the two columns it sets.\<close>

definition calculate_sale_totals ::
    "uuid option \<Rightarrow> sale_items_row \<Rightarrow> store \<Rightarrow> error + store" where
  "calculate_sale_totals uid NEW d =
     (case decimal_10_2 (sum_list (map si_total_price
                           (filter (\<lambda>r. si_sale_id r = si_id NEW) (tbl_sale_items d)))) of
        Inl e \<Rightarrow> Inl e
      | Inr sale_total \<Rightarrow>
          update_sales uid (\<lambda>s. s_id s = si_id NEW)
            (\<lambda>s. case decimal_10_2
                         (sale_total - (case s_discount_amount s of None \<Rightarrow> 0 | Some x \<Rightarrow> x)) of
                    Inl e \<Rightarrow> Inl e
                  | Inr total_amount \<Rightarrow>
                      Inr (s\<lparr>s_subtotal := sale_total, s_total_amount := total_amount\<rparr>)) d)"

subsection \<open>The two inserts of a sale\<close>

text \<open>The values of a new \<^verbatim>\<open>sales\<close> row, converted to the types of the columns.\<close>

definition sales_columns :: "sales_row \<Rightarrow> error + sales_row" where
  "sales_columns vals =
     (case decimal_10_2 (s_subtotal vals) of
        Inl e \<Rightarrow> Inl e
      | Inr subtotal \<Rightarrow>
     (case decimal_10_2_null (s_discount_value vals) of
        Inl e \<Rightarrow> Inl e
      | Inr discount_value \<Rightarrow>
     (case decimal_10_2_null (s_discount_amount vals) of
        Inl e \<Rightarrow> Inl e
      | Inr discount_amount \<Rightarrow>
     (case decimal_10_2 (s_total_amount vals) of
        Inl e \<Rightarrow> Inl e
      | Inr total_amount \<Rightarrow>
          Inr (vals\<lparr>s_subtotal := subtotal, s_discount_value := discount_value,
                     s_discount_amount := discount_amount,
                     s_total_amount := total_amount\<rparr>)))))"

text \<open>\<^verbatim>\<open>INSERT INTO sales\<close> of one row: the conversion of the values, the identifier
  default, the two \<^verbatim>\<open>BEFORE INSERT\<close> triggers (both \<^verbatim>\<open>set_sale_number\<close>), the \<^verbatim>\<open>NOT NULL\<close>
  and \<^verbatim>\<open>UNIQUE\<close> constraints, the insert, and the two audit triggers after it. A failed
  statement keeps only the advance of the sequence.\<close>

definition insert_sales :: "uuid option \<Rightarrow> sales_row \<Rightarrow> store \<Rightarrow> (error + sales_row) \<times> store" where
  "insert_sales uid vals d =
     (case sales_columns vals of
        Inl e \<Rightarrow> (Inl e, d)
      | Inr row \<Rightarrow>
          (let (NEW1, d1) = set_sale_number (row\<lparr>s_id := next_uuid d\<rparr>)
                              (d\<lparr>next_uuid := next_uuid d + 1\<rparr>);
               (NEW, d2) = set_sale_number NEW1 d1;
               failed = d\<lparr>sale_number_seq := sale_number_seq d2\<rparr>
           in if s_cashier_id NEW = None then (Inl (NotNullViolation ''cashier_id''), failed)
              else if s_sale_number NEW = None then (Inl (NotNullViolation ''sale_number''), failed)
              else if s_sale_number NEW \<in> set (map s_sale_number (tbl_sales d2))
                then (Inl (UniqueViolation ''sale_number''), failed)
              else (Inr NEW,
                    audit_trigger_function uid ''sales'' (On_INSERT (Sales_json NEW))
                      (create_audit_log uid ''sales'' (On_INSERT (Sales_json NEW))
                         (d2\<lparr>tbl_sales := tbl_sales d2 @ [NEW]\<rparr>)))))"

text \<open>The values of a new \<^verbatim>\<open>sale_items\<close> row, converted to the types of the columns.\<close>

definition sale_items_columns :: "sale_items_row \<Rightarrow> error + sale_items_row" where
  "sale_items_columns vals =
     (case decimal_10_2 (si_unit_price vals) of
        Inl e \<Rightarrow> Inl e
      | Inr price \<Rightarrow>
     (case decimal_10_2 (si_total_price vals) of
        Inl e \<Rightarrow> Inl e
      | Inr line_total \<Rightarrow>
          Inr (vals\<lparr>si_unit_price := price, si_total_price := line_total\<rparr>)))"

text \<open>\<^verbatim>\<open>INSERT INTO sale_items\<close> of several rows in one statement. Each row is converted,
  passes the \<^verbatim>\<open>BEFORE INSERT\<close> trigger and is inserted. Everything that runs after a row
  is queued and runs at the end of the statement, row by row: the checks of the two
  foreign keys (constraint triggers, which sort before the others by name), then
  \<^verbatim>\<open>audit_sale_items_trigger\<close>, \<^verbatim>\<open>calculate_sale_totals_trigger\<close>,
  \<^verbatim>\<open>trigger_update_product_stock\<close> and \<^verbatim>\<open>update_product_stock_trigger\<close>.\<close>

fun insert_sale_items_rows ::
    "sale_items_row list \<Rightarrow> store \<Rightarrow> error + (sale_items_row list \<times> store)" where
  "insert_sale_items_rows [] d = Inr ([], d)"
| "insert_sale_items_rows (vals # rest) d =
     (case sale_items_columns vals of
        Inl e \<Rightarrow> Inl e
      | Inr row \<Rightarrow>
          (case validate_stock_before_sale (row\<lparr>si_id := next_uuid d\<rparr>) d of
             Inl e \<Rightarrow> Inl e
           | Inr NEW \<Rightarrow>
               (case insert_sale_items_rows rest
                       (d\<lparr>tbl_sale_items := tbl_sale_items d @ [NEW],
                          next_uuid := next_uuid d + 1\<rparr>) of
                  Inl e \<Rightarrow> Inl e
                | Inr (news, d') \<Rightarrow> Inr (NEW # news, d'))))"

definition sale_items_after_insert ::
    "uuid option \<Rightarrow> sale_items_row \<Rightarrow> store \<Rightarrow> error + store" where
  "sale_items_after_insert uid NEW d =
     (if si_sale_id NEW \<notin> set (map s_id (tbl_sales d))
        then Inl (ForeignKeyViolation ''sale_id'')
      else if si_product_id NEW \<notin> set (map p_id (tbl_products d))
        then Inl (ForeignKeyViolation ''product_id'')
      else (case calculate_sale_totals uid NEW
                   (create_audit_log uid ''sale_items'' (On_INSERT (Sale_items_json NEW)) d) of
              Inl e \<Rightarrow> Inl e
            | Inr d1 \<Rightarrow>
                (case update_product_stock uid NEW d1 of
                   Inl e \<Rightarrow> Inl e
                 | Inr d2 \<Rightarrow> update_product_stock uid NEW d2)))"

definition insert_sale_items ::
    "uuid option \<Rightarrow> sale_items_row list \<Rightarrow> store \<Rightarrow> (error + unit) \<times> store" where
  "insert_sale_items uid vals d =
     (case insert_sale_items_rows vals d of
        Inl e \<Rightarrow> (Inl e, d)
      | Inr (news, d1) \<Rightarrow>
          (case fold_err (sale_items_after_insert uid) news d1 of
             Inl e \<Rightarrow> (Inl e, d)
           | Inr d2 \<Rightarrow> (Inr (), d2)))"

subsection \<open>processSale\<close>

text \<open>What \<^verbatim>\<open>processSale\<close> hands to the receipt: the sale row and its items as read back
  from the store, with the tax, the change and the amount paid attached by the client.\<close>

record receipt =
  completeSale :: sales_row
  receipt_items :: "sale_items_row list"
  tax_amount :: rat
  change_due :: rat
  amount_paid :: rat

text \<open>The row \<^verbatim>\<open>processSale\<close> sends to \<^verbatim>\<open>sales\<close>: totals as computed in the browser.\<close>

definition sale_values :: "pos_state \<Rightarrow> sales_row" where
  "sale_values st =
     \<lparr>s_id = 0, s_sale_number = None,
      s_customer_id = selectedCustomer st,
      s_cashier_id = profile_id st,
      s_subtotal = calculateSubtotal st,
      s_discount_type = (if discountValue st > 0 then Some (discountType st) else None),
      s_discount_value = (if discountValue st > 0 then Some (discountValue st) else None),
      s_discount_amount = Some (calculateDiscountAmount st),
      s_total_amount = calculateTotal st,
      s_payment_method = paymentMethod st\<rparr>"

definition sale_item_values :: "uuid \<Rightarrow> CartItem \<Rightarrow> sale_items_row" where
  "sale_item_values sid item =
     \<lparr>si_id = 0, si_sale_id = sid, si_product_id = id (product item),
      si_quantity = quantity item, si_unit_price = unit_price item,
      si_total_price = total_price item\<rparr>"

text \<open>\<^verbatim>\<open>processSale\<close>: three checks with an alert and an early return, then the two inserts
  and the read of the complete sale, each a request of its own; an error of a request is
  caught (logged, with an alert) and nothing is undone. \<open>uid\<close> is the session's
  \<^verbatim>\<open>auth.uid()\<close>. For cash with no amount entered \<^verbatim>\<open>setAmountPaid(total)\<close> only schedules a
  state update, so the rest of the call still reads the old \<open>amountPaid\<close>. The reset of the
  form and the refresh of the product list after a sale are not part of the model.\<close>

definition processSale :: "uuid option \<Rightarrow> pos_state \<Rightarrow> store \<Rightarrow> (error + receipt) \<times> store" where
  "processSale uid st d =
     (if cart st = [] then (Inl EmptyCart, d)
      else let total = calculateTotal st in
        if total < 0 then (Inl NegativeTotal, d)
        else if \<not> (paymentMethod st = cash \<and> amountPaid st = 0)
                \<and> paymentMethod st = cash \<and> amountPaid st < total
          then (Inl InsufficientPayment, d)
        else
          (case insert_sales uid (sale_values st) d of
             (Inl saleError, d1) \<Rightarrow> (Inl saleError, d1)
           | (Inr saleData, d1) \<Rightarrow>
               (case insert_sale_items uid (map (sale_item_values (s_id saleData)) (cart st)) d1 of
                  (Inl itemsError, d2) \<Rightarrow> (Inl itemsError, d2)
                | (Inr _, d2) \<Rightarrow>
                    (case List.find (\<lambda>s. s_id s = s_id saleData) (tbl_sales d2) of
                       None \<Rightarrow> (Inl NoRowReturned, d2)
                     | Some sale \<Rightarrow>
                         (Inr \<lparr>completeSale = sale,
                               receipt_items =
                                 filter (\<lambda>r. si_sale_id r = s_id saleData) (tbl_sale_items d2),
                               tax_amount = calculateTaxAmount st,
                               change_due = calculateChangeDue st,
                               amount_paid = amountPaid st\<rparr>, d2)))))"

text \<open>None of the three early returns of \<^verbatim>\<open>processSale\<close> is taken: the cart is not empty, the
  total is not negative, and a cash payment with an amount entered covers the total.\<close>

definition checks_pass :: "pos_state \<Rightarrow> bool" where
  "checks_pass st =
     (cart st \<noteq> [] \<and> 0 \<le> calculateTotal st
      \<and> \<not> (paymentMethod st = cash \<and> amountPaid st \<noteq> 0 \<and> amountPaid st < calculateTotal st))"

subsection \<open>Stores and the states they pass through\<close>

text \<open>A fact about identifiers the model relies on: every sale identifier in the store was
  handed out by \<^verbatim>\<open>gen_random_uuid()\<close> before.\<close>

definition wf_store :: "store \<Rightarrow> bool" where
  "wf_store d = list_all (\<lambda>s. s_id s < next_uuid d) (tbl_sales d)"

text \<open>The number of audit entries of one kind in a list of entries; an entry of the
  insert of an item of the sale \<open>sid\<close>, and an entry of an update of one of the products
  \<open>pids\<close>.\<close>

definition audit_count :: "string \<Rightarrow> string \<Rightarrow> audit_logs_row list \<Rightarrow> nat" where
  "audit_count action tbl entries =
     length (filter (\<lambda>e. al_action e = action \<and> al_table_name e = tbl) entries)"

definition sale_item_entry :: "uuid option \<Rightarrow> uuid \<Rightarrow> audit_logs_row \<Rightarrow> bool" where
  "sale_item_entry uid sid e =
     (al_user_id e = uid \<and> al_action e = ''INSERT'' \<and> al_table_name e = ''sale_items''
      \<and> al_old_values e = None
      \<and> (case al_new_values e of
            Some (Sale_items_json r) \<Rightarrow> si_sale_id r = sid \<and> al_record_id e = si_id r
          | _ \<Rightarrow> False))"

definition product_entry :: "uuid option \<Rightarrow> uuid list \<Rightarrow> audit_logs_row \<Rightarrow> bool" where
  "product_entry uid pids e =
     (al_user_id e = uid \<and> al_action e = ''UPDATE'' \<and> al_table_name e = ''products''
      \<and> al_record_id e \<in> set pids)"

text \<open>The audit entries of an update of \<open>products\<close>, given the pairs of old and new row:
  one entry of each of the two audit triggers for each updated row.\<close>

definition product_update_entries ::
    "uuid option \<Rightarrow> (products_row \<times> products_row) list \<Rightarrow> audit_logs_row list" where
  "product_update_entries uid changed =
     concat (map (\<lambda>on. replicate 2 (audit_values uid ''products''
                    (On_UPDATE (Products_json (fst on)) (Products_json (snd on))))) changed)"



subsection \<open>Example data\<close>

definition example_product :: Product where
  "example_product = \<lparr>id = 1, selling_price = 100, stock_quantity = 50\<rparr>"

text \<open>A cart of two units at 100.00 with a 10 percent discount, tax 7.5 percent, paid 200
  in cash.\<close>

definition example_state :: pos_state where
  "example_state =
     \<lparr>products = [example_product],
      cart = [\<lparr>product = example_product, quantity = 2, unit_price = 100, total_price = 200\<rparr>],
      selectedCustomer = None, paymentMethod = cash, discountType = percentage,
      discountValue = 10, taxRate = 3 / 40, amountPaid = 200, profile_id = Some 7\<rparr>"

definition example_alert :: low_stock_alerts_row where
  "example_alert =
     \<lparr>a_id = 4, a_product_id = 1, a_current_stock = 9, a_threshold = 10,
      a_is_acknowledged = False, a_acknowledged_by = None, a_acknowledged_at = None\<rparr>"

text \<open>A catalogue of one product with 50 in stock and threshold 10, and nothing else.\<close>

definition example_stock :: products_row where
  "example_stock =
     \<lparr>p_id = 1, p_selling_price = 100, p_stock_quantity = 50, p_low_stock_threshold = 10\<rparr>"

definition example_store :: store where
  "example_store =
     \<lparr>tbl_products = [example_stock],
      tbl_sales = [], tbl_sale_items = [], tbl_low_stock_alerts = [], tbl_audit_logs = [],
      sale_number_seq = 1, next_uuid = 2\<rparr>"

text \<open>The example store after a card sale of three units was entered, and a line for that
  sale asking for \<open>q\<close> units of the product.\<close>

definition example_sale :: sales_row where
  "example_sale =
     \<lparr>s_id = 2, s_sale_number = Some ''BD-000001'', s_customer_id = None,
      s_cashier_id = Some 7, s_subtotal = 300, s_discount_type = None,
      s_discount_value = None, s_discount_amount = Some 0, s_total_amount = 645 / 2,
      s_payment_method = card\<rparr>"

definition example_store_with_sale :: store where
  "example_store_with_sale =
     example_store\<lparr>tbl_sales := [example_sale], sale_number_seq := 2, next_uuid := 3\<rparr>"

definition example_line :: "int \<Rightarrow> sale_items_row" where
  "example_line q =
     \<lparr>si_id = 0, si_sale_id = 2, si_product_id = 1, si_quantity = q, si_unit_price = 100,
      si_total_price = 100 * of_int q\<rparr>"

text \<open>The sale of \<open>example_state\<close> as stored, its receipt, and the store after it: each of
  the two stock triggers takes two units, so the stock goes from 50 to 48 and to 46, and
  each update of the product is logged twice.\<close>

definition example_committed_sale :: sales_row where
  "example_committed_sale =
     \<lparr>s_id = 2, s_sale_number = Some ''BD-000001'', s_customer_id = None,
      s_cashier_id = Some 7, s_subtotal = 200, s_discount_type = Some percentage,
      s_discount_value = Some 10, s_discount_amount = Some 20, s_total_amount = 387 / 2,
      s_payment_method = cash\<rparr>"

definition example_committed_item :: sale_items_row where
  "example_committed_item =
     \<lparr>si_id = 3, si_sale_id = 2, si_product_id = 1, si_quantity = 2, si_unit_price = 100,
      si_total_price = 200\<rparr>"

definition example_receipt :: receipt where
  "example_receipt =
     \<lparr>completeSale = example_committed_sale, receipt_items = [example_committed_item],
      tax_amount = 27 / 2, change_due = 13 / 2, amount_paid = 200\<rparr>"

definition example_store_after :: store where
  "example_store_after =
     \<lparr>tbl_products = [example_stock\<lparr>p_stock_quantity := 46\<rparr>],
      tbl_sales = [example_committed_sale],
      tbl_sale_items = [example_committed_item],
      tbl_low_stock_alerts = [],
      tbl_audit_logs =
        [audit_values (Some 7) ''sales'' (On_INSERT (Sales_json example_committed_sale)),
         audit_values (Some 7) ''sales'' (On_INSERT (Sales_json example_committed_sale)),
         audit_values (Some 7) ''sale_items'' (On_INSERT (Sale_items_json example_committed_item)),
         audit_values (Some 7) ''products''
           (On_UPDATE (Products_json example_stock)
              (Products_json (example_stock\<lparr>p_stock_quantity := 48\<rparr>))),
         audit_values (Some 7) ''products''
           (On_UPDATE (Products_json example_stock)
              (Products_json (example_stock\<lparr>p_stock_quantity := 48\<rparr>))),
         audit_values (Some 7) ''products''
           (On_UPDATE (Products_json (example_stock\<lparr>p_stock_quantity := 48\<rparr>))
              (Products_json (example_stock\<lparr>p_stock_quantity := 46\<rparr>))),
         audit_values (Some 7) ''products''
           (On_UPDATE (Products_json (example_stock\<lparr>p_stock_quantity := 48\<rparr>))
              (Products_json (example_stock\<lparr>p_stock_quantity := 46\<rparr>)))],
      sale_number_seq = 2, next_uuid = 4\<rparr>"

text \<open>A cart that asks for 60 units of the product, of which the store has 50; no
  discount, paid by card. The sale row that this cart sends, as stored, and the store
  after the insert of that row.\<close>

definition example_state_sixty :: pos_state where
  "example_state_sixty =
     example_state\<lparr>cart := [\<lparr>product = example_product, quantity = 60, unit_price = 100,
                              total_price = 6000\<rparr>],
                   paymentMethod := card, discountValue := 0, amountPaid := 0\<rparr>"

definition example_orphan_sale :: sales_row where
  "example_orphan_sale =
     \<lparr>s_id = 2, s_sale_number = Some ''BD-000001'', s_customer_id = None,
      s_cashier_id = Some 7, s_subtotal = 6000, s_discount_type = None,
      s_discount_value = None, s_discount_amount = Some 0, s_total_amount = 6450,
      s_payment_method = card\<rparr>"

definition example_store_orphan :: store where
  "example_store_orphan =
     example_store\<lparr>tbl_sales := [example_orphan_sale],
                   tbl_audit_logs :=
                     [audit_values (Some 7) ''sales'' (On_INSERT (Sales_json example_orphan_sale)),
                      audit_values (Some 7) ''sales'' (On_INSERT (Sales_json example_orphan_sale))],
                   sale_number_seq := 2, next_uuid := 3\<rparr>"


definition acknowledged_store :: store where
  "acknowledged_store =
     acknowledgeAlert 5 4 (example_store\<lparr>tbl_low_stock_alerts := [example_alert]\<rparr>)"

section \<open>Properties\<close>

subsection \<open>Discount rule\<close>

text \<open>
  C8. \<open>calculateDiscountAmount\<close> takes a flat value as it is, as the claim says, but it
  does not clamp a percentage: a percentage of 150 on a subtotal of 200 gives a discount of
  300, where the claimed rule (\<open>discountAmount_spec\<close>) gives 200. The discount field of the
  screen carries \<^verbatim>\<open>min="0"\<close> and \<^verbatim>\<open>max="100"\<close> for a percentage, which the browser does not
  enforce on typed input, and the handler stores whatever number was typed.
\<close>

theorem calculateDiscountAmount_percentage_150:
  "calculateDiscountAmount (example_state\<lparr>discountValue := 150\<rparr>) = 300
   \<and> discountAmount_spec (calculateSubtotal (example_state\<lparr>discountValue := 150\<rparr>))
         percentage 150 = 200"
  by (simp add: calculateDiscountAmount_def calculateSubtotal_def discountAmount_spec_def
        example_state_def)

text \<open>The two rules agree exactly on a flat discount, on a subtotal of zero and on a
  percentage between 0 and 100.\<close>

lemma calculateDiscountAmount_agrees_iff:
  "calculateDiscountAmount st =
     discountAmount_spec (calculateSubtotal st) (discountType st) (discountValue st)
   \<longleftrightarrow> discountType st = flat \<or> calculateSubtotal st = 0
       \<or> (0 \<le> discountValue st \<and> discountValue st \<le> 100)"
  by (cases "discountType st")
     (auto simp add: calculateDiscountAmount_def discountAmount_spec_def max_def min_def)

subsection \<open>Acknowledging an alert\<close>

lemma filter_map_other_rows:
  "(\<And>a. a_id (upd a) = a_id a) \<Longrightarrow>
   filter (\<lambda>a. a_id a \<noteq> k) (map (\<lambda>a. if a_id a = k then upd a else a) xs)
     = filter (\<lambda>a. a_id a \<noteq> k) xs"
  by (induction xs) simp_all

text \<open>
  C10 (amended). \<open>acknowledgeAlert\<close> sets \<open>is_acknowledged\<close> and stores the time of the call
  on the alert with the given identifier; it never writes \<open>acknowledged_by\<close> and leaves all
  other alerts alone. Acknowledging again is not an error and keeps the flag, but it
  overwrites the stored time: the result is that of a single acknowledgement at the later
  time.
\<close>

theorem acknowledgeAlert_sets_flag_and_time:
  "(\<forall>a \<in> set (tbl_low_stock_alerts (acknowledgeAlert now alertId d)).
       a_id a = alertId \<longrightarrow> a_is_acknowledged a \<and> a_acknowledged_at a = Some now)
   \<and> map a_acknowledged_by (tbl_low_stock_alerts (acknowledgeAlert now alertId d))
       = map a_acknowledged_by (tbl_low_stock_alerts d)
   \<and> map a_id (tbl_low_stock_alerts (acknowledgeAlert now alertId d))
       = map a_id (tbl_low_stock_alerts d)
   \<and> filter (\<lambda>a. a_id a \<noteq> alertId) (tbl_low_stock_alerts (acknowledgeAlert now alertId d))
       = filter (\<lambda>a. a_id a \<noteq> alertId) (tbl_low_stock_alerts d)
   \<and> acknowledgeAlert now' alertId (acknowledgeAlert now alertId d)
       = acknowledgeAlert now' alertId d"
proof -
  have flag: "\<forall>a \<in> set (tbl_low_stock_alerts (acknowledgeAlert now alertId d)).
       a_id a = alertId \<longrightarrow> a_is_acknowledged a \<and> a_acknowledged_at a = Some now"
    by (simp add: acknowledgeAlert_def del: if_image_distrib)
  have actor: "map a_acknowledged_by (tbl_low_stock_alerts (acknowledgeAlert now alertId d))
       = map a_acknowledged_by (tbl_low_stock_alerts d)"
    by (simp add: acknowledgeAlert_def)
  have ids: "map a_id (tbl_low_stock_alerts (acknowledgeAlert now alertId d))
       = map a_id (tbl_low_stock_alerts d)"
    by (simp add: acknowledgeAlert_def)
  have others: "filter (\<lambda>a. a_id a \<noteq> alertId)
         (tbl_low_stock_alerts (acknowledgeAlert now alertId d))
       = filter (\<lambda>a. a_id a \<noteq> alertId) (tbl_low_stock_alerts d)"
    by (simp add: acknowledgeAlert_def filter_map_other_rows)
  have again: "acknowledgeAlert now' alertId (acknowledgeAlert now alertId d)
       = acknowledgeAlert now' alertId d"
    by (simp add: acknowledgeAlert_def comp_def)
  from flag actor ids others again show ?thesis by blast
qed

theorem acknowledgeAlert_sets_flag_and_time_witness:
  "map a_id (tbl_low_stock_alerts acknowledged_store) = [4]
   \<and> map a_is_acknowledged (tbl_low_stock_alerts acknowledged_store) = [True]
   \<and> map a_acknowledged_at (tbl_low_stock_alerts acknowledged_store) = [Some 5]
   \<and> map a_acknowledged_by (tbl_low_stock_alerts acknowledged_store) = [None]"
  using acknowledgeAlert_sets_flag_and_time
          [of 5 4 "example_store\<lparr>tbl_low_stock_alerts := [example_alert]\<rparr>" 5]
  by (simp add: acknowledged_store_def acknowledgeAlert_def example_alert_def example_store_def)

text \<open>An alert acknowledged at time 5 and acknowledged again at time 9: the store changes
  (the stored time becomes 9), and no actor is recorded.\<close>

theorem acknowledgeAlert_repeat_counterexample:
  "tbl_low_stock_alerts acknowledged_store
     = [example_alert\<lparr>a_is_acknowledged := True, a_acknowledged_at := Some 5\<rparr>]
   \<and> acknowledgeAlert 9 4 acknowledged_store \<noteq> acknowledged_store
   \<and> map a_acknowledged_at (tbl_low_stock_alerts (acknowledgeAlert 9 4 acknowledged_store))
        = [Some 9]
   \<and> map a_acknowledged_by (tbl_low_stock_alerts (acknowledgeAlert 9 4 acknowledged_store))
        = [None]"
proof -
  have alerts: "tbl_low_stock_alerts acknowledged_store
     = [example_alert\<lparr>a_is_acknowledged := True, a_acknowledged_at := Some 5\<rparr>]"
    by (simp add: acknowledged_store_def acknowledgeAlert_def example_alert_def example_store_def)
  have again: "tbl_low_stock_alerts (acknowledgeAlert 9 4 acknowledged_store)
     = [example_alert\<lparr>a_is_acknowledged := True, a_acknowledged_at := Some 9\<rparr>]"
    by (simp add: acknowledgeAlert_def alerts) (simp add: example_alert_def)
  have "tbl_low_stock_alerts (acknowledgeAlert 9 4 acknowledged_store)
          \<noteq> tbl_low_stock_alerts acknowledged_store"
    by (simp add: alerts again example_alert_def)
  then have changed: "acknowledgeAlert 9 4 acknowledged_store \<noteq> acknowledged_store"
    by auto
  have time: "map a_acknowledged_at (tbl_low_stock_alerts (acknowledgeAlert 9 4 acknowledged_store))
        = [Some 9]"
    by (simp add: again)
  have actor: "map a_acknowledged_by (tbl_low_stock_alerts (acknowledgeAlert 9 4 acknowledged_store))
        = [None]"
    by (simp add: again example_alert_def)
  from alerts changed time actor show ?thesis by simp
qed

subsection \<open>Updates of products\<close>

lemma audit_frame [simp]:
  "tbl_products (create_audit_log uid tbl ev d) = tbl_products d"
  "tbl_sales (create_audit_log uid tbl ev d) = tbl_sales d"
  "tbl_sale_items (create_audit_log uid tbl ev d) = tbl_sale_items d"
  "tbl_low_stock_alerts (create_audit_log uid tbl ev d) = tbl_low_stock_alerts d"
  "sale_number_seq (create_audit_log uid tbl ev d) = sale_number_seq d"
  "next_uuid (create_audit_log uid tbl ev d) = next_uuid d"
  "tbl_audit_logs (create_audit_log uid tbl ev d) = tbl_audit_logs d @ [audit_values uid tbl ev]"
  "tbl_products (audit_trigger_function uid tbl ev d) = tbl_products d"
  "tbl_sales (audit_trigger_function uid tbl ev d) = tbl_sales d"
  "tbl_sale_items (audit_trigger_function uid tbl ev d) = tbl_sale_items d"
  "tbl_low_stock_alerts (audit_trigger_function uid tbl ev d) = tbl_low_stock_alerts d"
  "sale_number_seq (audit_trigger_function uid tbl ev d) = sale_number_seq d"
  "next_uuid (audit_trigger_function uid tbl ev d) = next_uuid d"
  "tbl_audit_logs (audit_trigger_function uid tbl ev d)
     = tbl_audit_logs d @ [audit_values uid tbl ev]"
  by (simp_all add: create_audit_log_def audit_trigger_function_def)

lemma product_update_entries_simps:
  "product_update_entries uid [] = []"
  "product_update_entries uid (on # changed) =
     [audit_values uid ''products'' (On_UPDATE (Products_json (fst on)) (Products_json (snd on))),
      audit_values uid ''products'' (On_UPDATE (Products_json (fst on)) (Products_json (snd on)))]
     @ product_update_entries uid changed"
  by (simp_all add: product_update_entries_def numeral_2_eq_2)

lemma products_after_update_eq:
  "products_after_update uid of_stock on d =
     (if p_stock_quantity (snd on) \<le> p_low_stock_threshold (snd on)
      then Inl (InvalidColumnReference ''product_id'')
      else Inr (d\<lparr>tbl_audit_logs := tbl_audit_logs d @ product_update_entries uid [on]\<rparr>))"
  by (cases on)
     (simp add: products_after_update_def check_low_stock_def product_update_entries_simps
        create_audit_log_def audit_trigger_function_def Let_def)

lemma fold_products_after_update_eq:
  "fold_err (products_after_update uid of_stock) changed d =
     (if list_ex (\<lambda>on. p_stock_quantity (snd on) \<le> p_low_stock_threshold (snd on)) changed
      then Inl (InvalidColumnReference ''product_id'')
      else Inr (d\<lparr>tbl_audit_logs := tbl_audit_logs d @ product_update_entries uid changed\<rparr>))"
proof (induction changed arbitrary: d)
  case Nil
  then show ?case by (simp add: product_update_entries_simps)
next
  case (Cons on changed)
  have step: "fold_err (products_after_update uid of_stock) (on # changed) d =
      (case products_after_update uid of_stock on d of
         Inl e \<Rightarrow> Inl e
       | Inr s' \<Rightarrow> fold_err (products_after_update uid of_stock) changed s')"
    by simp
  show ?case
    unfolding step products_after_update_eq [of uid of_stock on d]
    by (simp add: Cons.IH product_update_entries_simps)
qed

lemma update_products_eq:
  "update_products uid of_stock wh upd d =
     (if list_ex (\<lambda>p. wh p \<and> p_stock_quantity (upd p) \<le> p_low_stock_threshold (upd p))
           (tbl_products d)
      then Inl (InvalidColumnReference ''product_id'')
      else Inr (d\<lparr>tbl_products := map (\<lambda>p. if wh p then upd p else p) (tbl_products d),
                  tbl_audit_logs := tbl_audit_logs d @
                    product_update_entries uid
                      (map (\<lambda>p. (p, upd p)) (filter wh (tbl_products d)))\<rparr>))"
proof -
  have "list_ex (\<lambda>on. p_stock_quantity (snd on) \<le> p_low_stock_threshold (snd on))
          (map (\<lambda>p. (p, upd p)) (filter wh xs))
        = list_ex (\<lambda>p. wh p \<and> p_stock_quantity (upd p) \<le> p_low_stock_threshold (upd p)) xs"
    for xs
    by (induction xs) simp_all
  then show ?thesis
    by (simp add: update_products_def Let_def fold_products_after_update_eq)
qed

subsection \<open>Stale alerts\<close>

text \<open>
  C9. A stock mutation that leaves every updated product strictly above its threshold
  goes through and leaves the alert table unchanged: \<open>check_low_stock\<close> does nothing for
  such a product, in particular it never clears an alert after a restock. More generally
  no update of \<open>products\<close> that goes through changes an alert.
\<close>

theorem stock_above_threshold_keeps_alerts:
  "(p_low_stock_threshold NEW < p_stock_quantity NEW \<longrightarrow> check_low_stock NEW d = Inr d)
   \<and> (list_all (\<lambda>p. wh p \<longrightarrow> p_low_stock_threshold (upd p) < p_stock_quantity (upd p))
          (tbl_products d) \<longrightarrow>
        (\<exists>d'. update_products uid of_stock wh upd d = Inr d'
              \<and> tbl_products d' = map (\<lambda>p. if wh p then upd p else p) (tbl_products d)
              \<and> tbl_low_stock_alerts d' = tbl_low_stock_alerts d))
   \<and> (update_products uid of_stock wh upd d = Inr dn \<longrightarrow>
        tbl_low_stock_alerts dn = tbl_low_stock_alerts d)"
proof (intro conjI impI)
  assume "p_low_stock_threshold NEW < p_stock_quantity NEW"
  then show "check_low_stock NEW d = Inr d"
    by (simp add: check_low_stock_def)
next
  assume above: "list_all (\<lambda>p. wh p \<longrightarrow> p_low_stock_threshold (upd p) < p_stock_quantity (upd p))
          (tbl_products d)"
  have "list_all (\<lambda>p. wh p \<longrightarrow> p_low_stock_threshold (upd p) < p_stock_quantity (upd p)) xs
        \<Longrightarrow> \<not> list_ex (\<lambda>p. wh p \<and> p_stock_quantity (upd p) \<le> p_low_stock_threshold (upd p)) xs"
    for xs
    by (induction xs) auto
  from this [OF above]
  show "\<exists>d'. update_products uid of_stock wh upd d = Inr d'
              \<and> tbl_products d' = map (\<lambda>p. if wh p then upd p else p) (tbl_products d)
              \<and> tbl_low_stock_alerts d' = tbl_low_stock_alerts d"
    by (simp add: update_products_eq)
next
  assume "update_products uid of_stock wh upd d = Inr dn"
  then show "tbl_low_stock_alerts dn = tbl_low_stock_alerts d"
    by (auto simp add: update_products_eq split: if_splits)
qed

text \<open>A restock of the example product to 30, above its threshold 10, with an alert on
  the product.\<close>

theorem stock_above_threshold_keeps_alerts_witness:
  "check_low_stock (example_stock\<lparr>p_stock_quantity := 30\<rparr>)
       (example_store\<lparr>tbl_low_stock_alerts := [example_alert]\<rparr>)
     = Inr (example_store\<lparr>tbl_low_stock_alerts := [example_alert]\<rparr>)
   \<and> (\<exists>d'. update_products (Some 7) True (\<lambda>p. p_id p = 1) (\<lambda>p. p\<lparr>p_stock_quantity := 30\<rparr>)
               (example_store\<lparr>tbl_low_stock_alerts := [example_alert]\<rparr>) = Inr d'
            \<and> map p_stock_quantity (tbl_products d') = [30]
            \<and> tbl_low_stock_alerts d' = [example_alert])"
proof -
  note inst = stock_above_threshold_keeps_alerts
          [where NEW = "example_stock\<lparr>p_stock_quantity := 30\<rparr>"
             and d = "example_store\<lparr>tbl_low_stock_alerts := [example_alert]\<rparr>"
             and wh = "\<lambda>p. p_id p = 1" and upd = "\<lambda>p. p\<lparr>p_stock_quantity := 30\<rparr>"
             and uid = "Some 7" and of_stock = True and dn = example_store]
  have above: "p_low_stock_threshold (example_stock\<lparr>p_stock_quantity := 30\<rparr>)
                 < p_stock_quantity (example_stock\<lparr>p_stock_quantity := 30\<rparr>)"
    by (simp add: example_stock_def)
  have all_above: "list_all (\<lambda>p. p_id p = 1 \<longrightarrow>
          p_low_stock_threshold (p\<lparr>p_stock_quantity := 30\<rparr>)
            < p_stock_quantity (p\<lparr>p_stock_quantity := 30\<rparr>))
        (tbl_products (example_store\<lparr>tbl_low_stock_alerts := [example_alert]\<rparr>))"
    by (simp add: example_store_def example_stock_def)
  from inst above have kept: "check_low_stock (example_stock\<lparr>p_stock_quantity := 30\<rparr>)
       (example_store\<lparr>tbl_low_stock_alerts := [example_alert]\<rparr>)
     = Inr (example_store\<lparr>tbl_low_stock_alerts := [example_alert]\<rparr>)"
    by blast
  from inst all_above obtain d' where d':
    "update_products (Some 7) True (\<lambda>p. p_id p = 1) (\<lambda>p. p\<lparr>p_stock_quantity := 30\<rparr>)
               (example_store\<lparr>tbl_low_stock_alerts := [example_alert]\<rparr>) = Inr d'"
    "tbl_products d' = map (\<lambda>p. if p_id p = 1 then p\<lparr>p_stock_quantity := 30\<rparr> else p)
        (tbl_products (example_store\<lparr>tbl_low_stock_alerts := [example_alert]\<rparr>))"
    "tbl_low_stock_alerts d'
       = tbl_low_stock_alerts (example_store\<lparr>tbl_low_stock_alerts := [example_alert]\<rparr>)"
    by blast
  from d'(2) have stock: "map p_stock_quantity (tbl_products d') = [30]"
    by (simp add: example_store_def example_stock_def)
  from d'(3) have alerts: "tbl_low_stock_alerts d' = [example_alert]"
    by simp
  from d'(1) stock alerts
  have "\<exists>d'. update_products (Some 7) True (\<lambda>p. p_id p = 1) (\<lambda>p. p\<lparr>p_stock_quantity := 30\<rparr>)
               (example_store\<lparr>tbl_low_stock_alerts := [example_alert]\<rparr>) = Inr d'
            \<and> map p_stock_quantity (tbl_products d') = [30]
            \<and> tbl_low_stock_alerts d' = [example_alert]"
    by (intro exI [of _ d'] conjI)
  with kept show ?thesis by (rule conjI)
qed

subsection \<open>Reserving and decrementing stock\<close>

text \<open>
  C4. Inserting a sale item is the reserve-and-decrement step. With 50 units in stock
  and threshold 10, a line of 3 units is accepted and the stock falls to 44, by twice the
  requested quantity: \<^verbatim>\<open>trigger_update_product_stock\<close> of the initial schema and
  \<^verbatim>\<open>update_product_stock_trigger\<close> of the quick-sale-triggers migration both run
  \<open>update_product_stock\<close>. A line of 20 units, which the stock covers, is rejected, and not
  with \<open>InsufficientStock\<close>: the second decrement brings the stock to the threshold, where
  \<open>check_low_stock\<close> fails the statement. A line of 60 units is rejected with
  \<open>InsufficientStock\<close>, and a rejected line leaves the store as it was.
\<close>

theorem sale_item_insert_decrements_twice:
  "map p_stock_quantity (tbl_products example_store_with_sale) = [50]
   \<and> fst (insert_sale_items (Some 7) [example_line 3] example_store_with_sale) = Inr ()
   \<and> map p_stock_quantity
         (tbl_products (snd (insert_sale_items (Some 7) [example_line 3] example_store_with_sale)))
       = [44]
   \<and> insert_sale_items (Some 7) [example_line 20] example_store_with_sale
       = (Inl (InvalidColumnReference ''product_id''), example_store_with_sale)
   \<and> insert_sale_items (Some 7) [example_line 60] example_store_with_sale
       = (Inl (InsufficientStock 1 60 50), example_store_with_sale)"
  by code_simp

subsection \<open>Stock levels after a sale\<close>

lemma processSale_example:
  "processSale (Some 7) example_state example_store = (Inr example_receipt, example_store_after)"
  by code_simp

text \<open>
  C3. A sale of two units of a product with 50 in stock (threshold 10) returns a receipt
  and leaves 46 in stock, not 48: each of the two stock triggers on \<open>sale_items\<close> subtracts
  the quantity sold.
\<close>

theorem sale_decrements_stock_twice:
  "processSale (Some 7) example_state example_store = (Inr example_receipt, example_store_after)
   \<and> map quantity (cart example_state) = [2]
   \<and> map p_stock_quantity (tbl_products example_store) = [50]
   \<and> map p_stock_quantity (tbl_products example_store_after) = [46]"
  using processSale_example
  by (simp add: example_state_def example_store_def example_store_after_def example_stock_def)

subsection \<open>The triggers after the insert of a sale item\<close>

lemma update_rows_no_match:
  "list_all (\<lambda>x. \<not> wh x) xs \<Longrightarrow> update_rows wh upd xs = Inr (xs, [])"
  by (induction xs) simp_all

lemma update_sales_no_match:
  "list_all (\<lambda>s. \<not> wh s) (tbl_sales d) \<Longrightarrow> update_sales uid wh upd d = Inr d"
  by (simp add: update_sales_def update_rows_no_match)

lemma not_member_list_all:
  "k \<notin> set (map f xs) \<Longrightarrow> list_all (\<lambda>x. \<not> f x = k) xs"
  by (induction xs) auto

lemma calculate_sale_totals_no_match:
  assumes "si_id NEW \<notin> set (map s_id (tbl_sales d))"
    and "calculate_sale_totals uid NEW d = Inr d1"
  shows "d1 = d"
proof -
  from assms(1) have "list_all (\<lambda>s. \<not> s_id s = si_id NEW) (tbl_sales d)"
    by (rule not_member_list_all)
  then have "update_sales uid (\<lambda>s. s_id s = si_id NEW) upd d = Inr d" for upd
    by (rule update_sales_no_match)
  with assms(2) show ?thesis
    by (simp add: calculate_sale_totals_def split: sum.splits)
qed

lemma product_update_entries_kind:
  "list_all (\<lambda>p. p_id (upd p) \<in> set pids) (filter wh ps) \<Longrightarrow>
   list_all (product_entry uid pids)
     (product_update_entries uid (map (\<lambda>p. (p, upd p)) (filter wh ps)))"
  by (induction ps) (auto simp add: product_update_entries_simps product_entry_def)

lemma product_update_entries_count:
  "audit_count ''UPDATE'' ''products'' (product_update_entries uid changed) = 2 * length changed"
  "audit_count ''INSERT'' ''sale_items'' (product_update_entries uid changed) = 0"
  "audit_count ''INSERT'' ''sales'' (product_update_entries uid changed) = 0"
  by (induction changed) (simp_all add: product_update_entries_simps audit_count_def)

lemma update_product_stock_Inr:
  assumes "update_product_stock uid NEW d = Inr d'"
  shows "d' = d\<lparr>tbl_products :=
                   map (\<lambda>p. if p_id p = si_product_id NEW
                             then p\<lparr>p_stock_quantity := p_stock_quantity p - si_quantity NEW\<rparr>
                             else p) (tbl_products d),
                 tbl_audit_logs := tbl_audit_logs d @
                   product_update_entries uid
                     (map (\<lambda>p. (p, p\<lparr>p_stock_quantity := p_stock_quantity p - si_quantity NEW\<rparr>))
                        (filter (\<lambda>p. p_id p = si_product_id NEW) (tbl_products d)))\<rparr>"
  using assms by (simp add: update_product_stock_def update_products_eq split: if_splits)

lemma update_product_stock_entries:
  "list_all (product_entry uid [si_product_id NEW])
     (product_update_entries uid
        (map (\<lambda>p. (p, p\<lparr>p_stock_quantity := p_stock_quantity p - q\<rparr>))
           (filter (\<lambda>p. p_id p = si_product_id NEW) ps)))"
  by (rule product_update_entries_kind) (simp add: list_all_iff)

lemma filter_key_nonempty:
  "k \<in> set (map f xs) \<Longrightarrow> filter (\<lambda>x. f x = k) xs \<noteq> []"
  by (induction xs) auto

text \<open>What the triggers after one inserted item leave, when none of them fails and the
  item's identifier is not the identifier of a sale.\<close>

lemma sale_items_after_insert_Inr:
  assumes run: "sale_items_after_insert uid NEW d = Inr d'"
    and fresh: "si_id NEW \<notin> set (map s_id (tbl_sales d))"
  shows "\<exists>ps es. d' = d\<lparr>tbl_products := ps,
                         tbl_audit_logs := tbl_audit_logs d @
                           audit_values uid ''sale_items'' (On_INSERT (Sale_items_json NEW)) # es\<rparr>
           \<and> list_all (product_entry uid [si_product_id NEW]) es
           \<and> 1 \<le> audit_count ''UPDATE'' ''products'' es
           \<and> audit_count ''INSERT'' ''sale_items'' es = 0
           \<and> audit_count ''INSERT'' ''sales'' es = 0"
    and "si_sale_id NEW \<in> set (map s_id (tbl_sales d))"
    and "si_product_id NEW \<in> set (map p_id (tbl_products d))"
proof -
  let ?d0 = "create_audit_log uid ''sale_items'' (On_INSERT (Sale_items_json NEW)) d"
  from run show fk: "si_sale_id NEW \<in> set (map s_id (tbl_sales d))"
    by (simp add: sale_items_after_insert_def split: if_splits)
  from run show fkp: "si_product_id NEW \<in> set (map p_id (tbl_products d))"
    by (simp add: sale_items_after_insert_def split: if_splits)
  from run fk fkp obtain d1 d2 where
    c: "calculate_sale_totals uid NEW ?d0 = Inr d1"
    and u1: "update_product_stock uid NEW d1 = Inr d2"
    and u2: "update_product_stock uid NEW d2 = Inr d'"
    by (auto simp add: sale_items_after_insert_def split: if_splits sum.splits)
  from fresh have "si_id NEW \<notin> set (map s_id (tbl_sales ?d0))" by simp
  from calculate_sale_totals_no_match [OF this c] have d1: "d1 = ?d0" .
  let ?dec = "\<lambda>p. p\<lparr>p_stock_quantity := p_stock_quantity p - si_quantity NEW\<rparr>"
  let ?e1 = "product_update_entries uid
               (map (\<lambda>p. (p, ?dec p)) (filter (\<lambda>p. p_id p = si_product_id NEW) (tbl_products d1)))"
  let ?e2 = "product_update_entries uid
               (map (\<lambda>p. (p, ?dec p)) (filter (\<lambda>p. p_id p = si_product_id NEW) (tbl_products d2)))"
  note s1 = update_product_stock_Inr [OF u1]
  note s2 = update_product_stock_Inr [OF u2]
  have products: "tbl_products d1 = tbl_products d" by (simp add: d1)
  have logs: "tbl_audit_logs d1
      = tbl_audit_logs d @ [audit_values uid ''sale_items'' (On_INSERT (Sale_items_json NEW))]"
    by (simp add: d1)
  have eq: "d' = d\<lparr>tbl_products := tbl_products d',
                    tbl_audit_logs := tbl_audit_logs d @
                      audit_values uid ''sale_items'' (On_INSERT (Sale_items_json NEW))
                        # (?e1 @ ?e2)\<rparr>"
    by (subst s2, subst s1, subst s2, subst s1) (simp add: d1 create_audit_log_def)
  have kind: "list_all (product_entry uid [si_product_id NEW]) (?e1 @ ?e2)"
    by (simp only: list_all_append update_product_stock_entries simp_thms)
  from fkp have "filter (\<lambda>p. p_id p = si_product_id NEW) (tbl_products d1) \<noteq> []"
    unfolding products by (rule filter_key_nonempty)
  then have "1 \<le> length (filter (\<lambda>p. p_id p = si_product_id NEW) (tbl_products d1))"
    by (cases "filter (\<lambda>p. p_id p = si_product_id NEW) (tbl_products d1)") simp_all
  then have some: "1 \<le> audit_count ''UPDATE'' ''products'' (?e1 @ ?e2)"
    by (simp add: audit_count_def product_update_entries_count [unfolded audit_count_def])
  have none: "audit_count ''INSERT'' ''sale_items'' (?e1 @ ?e2) = 0"
    "audit_count ''INSERT'' ''sales'' (?e1 @ ?e2) = 0"
    by (simp_all add: audit_count_def product_update_entries_count [unfolded audit_count_def])
  from eq kind some none
  show "\<exists>ps es. d' = d\<lparr>tbl_products := ps,
                         tbl_audit_logs := tbl_audit_logs d @
                           audit_values uid ''sale_items'' (On_INSERT (Sale_items_json NEW)) # es\<rparr>
           \<and> list_all (product_entry uid [si_product_id NEW]) es
           \<and> 1 \<le> audit_count ''UPDATE'' ''products'' es
           \<and> audit_count ''INSERT'' ''sale_items'' es = 0
           \<and> audit_count ''INSERT'' ''sales'' es = 0"
    by blast
qed

lemma audit_count_append:
  "audit_count action tbl (es @ es') = audit_count action tbl es + audit_count action tbl es'"
  by (simp add: audit_count_def)

lemma list_all_mono:
  "list_all P xs \<Longrightarrow> (\<And>x. P x \<Longrightarrow> Q x) \<Longrightarrow> list_all Q xs"
  by (induction xs) simp_all

lemma fold_sale_items_after_insert_Inr:
  assumes "fold_err (sale_items_after_insert uid) news d = Inr d'"
    and "list_all (\<lambda>r. si_id r \<notin> set (map s_id (tbl_sales d))) news"
    and "list_all (\<lambda>r. si_sale_id r = sid \<and> si_product_id r \<in> set pids) news"
  shows "\<exists>ps es. d' = d\<lparr>tbl_products := ps, tbl_audit_logs := tbl_audit_logs d @ es\<rparr>
           \<and> list_all (\<lambda>e. sale_item_entry uid sid e \<or> product_entry uid pids e) es
           \<and> audit_count ''INSERT'' ''sale_items'' es = length news
           \<and> length news \<le> audit_count ''UPDATE'' ''products'' es
           \<and> audit_count ''INSERT'' ''sales'' es = 0"
  using assms
proof (induction news arbitrary: d)
  case Nil
  then have "d' = d\<lparr>tbl_products := tbl_products d, tbl_audit_logs := tbl_audit_logs d @ []\<rparr>"
    by simp
  then show ?case
    by (intro exI [of _ "tbl_products d"] exI [of _ "[]"]) (simp add: audit_count_def)
next
  case (Cons r news)
  from Cons.prems(1) obtain d1 where
    first: "sale_items_after_insert uid r d = Inr d1"
    and rest: "fold_err (sale_items_after_insert uid) news d1 = Inr d'"
    by (auto split: sum.splits)
  from Cons.prems(2) have fresh: "si_id r \<notin> set (map s_id (tbl_sales d))"
    and fresh_rest: "list_all (\<lambda>r. si_id r \<notin> set (map s_id (tbl_sales d))) news"
    by simp_all
  from Cons.prems(3) have r: "si_sale_id r = sid" "si_product_id r \<in> set pids"
    and r_rest: "list_all (\<lambda>r. si_sale_id r = sid \<and> si_product_id r \<in> set pids) news"
    by simp_all
  let ?item = "audit_values uid ''sale_items'' (On_INSERT (Sale_items_json r))"
  from sale_items_after_insert_Inr(1) [OF first fresh] obtain ps1 es1 where
    d1: "d1 = d\<lparr>tbl_products := ps1, tbl_audit_logs := tbl_audit_logs d @ ?item # es1\<rparr>"
    and kind1: "list_all (product_entry uid [si_product_id r]) es1"
    and count1: "1 \<le> audit_count ''UPDATE'' ''products'' es1"
      "audit_count ''INSERT'' ''sale_items'' es1 = 0"
      "audit_count ''INSERT'' ''sales'' es1 = 0"
    by blast
  have "tbl_sales d1 = tbl_sales d" by (simp add: d1)
  with fresh_rest have "list_all (\<lambda>r. si_id r \<notin> set (map s_id (tbl_sales d1))) news"
    by simp
  from Cons.IH [OF rest this r_rest] obtain ps es where
    d': "d' = d1\<lparr>tbl_products := ps, tbl_audit_logs := tbl_audit_logs d1 @ es\<rparr>"
    and kind: "list_all (\<lambda>e. sale_item_entry uid sid e \<or> product_entry uid pids e) es"
    and count: "audit_count ''INSERT'' ''sale_items'' es = length news"
      "length news \<le> audit_count ''UPDATE'' ''products'' es"
      "audit_count ''INSERT'' ''sales'' es = 0"
    by blast
  have eq: "d' = d\<lparr>tbl_products := ps, tbl_audit_logs := tbl_audit_logs d @ (?item # es1) @ es\<rparr>"
    by (simp add: d' d1)
  have item: "sale_item_entry uid sid ?item"
    by (simp add: sale_item_entry_def r(1))
  have "product_entry uid pids e" if "product_entry uid [si_product_id r] e" for e
    using that r(2) by (simp add: product_entry_def)
  with kind1 have "list_all (product_entry uid pids) es1"
    by (rule list_all_mono)
  then have "list_all (\<lambda>e. sale_item_entry uid sid e \<or> product_entry uid pids e) es1"
    by (rule list_all_mono) simp
  with item kind
  have kinds: "list_all (\<lambda>e. sale_item_entry uid sid e \<or> product_entry uid pids e)
                 ((?item # es1) @ es)"
    by simp
  have item_count: "audit_count ''INSERT'' ''sale_items'' [?item] = 1"
    "audit_count ''UPDATE'' ''products'' [?item] = 0"
    "audit_count ''INSERT'' ''sales'' [?item] = 0"
    by (simp_all add: audit_count_def)
  have split: "(?item # es1) @ es = [?item] @ es1 @ es" by simp
  have counts: "audit_count ''INSERT'' ''sale_items'' ((?item # es1) @ es) = length (r # news)"
    "length (r # news) \<le> audit_count ''UPDATE'' ''products'' ((?item # es1) @ es)"
    "audit_count ''INSERT'' ''sales'' ((?item # es1) @ es) = 0"
    using count count1 item_count by (simp_all only: split audit_count_append) simp_all
  from eq kinds counts show ?case by blast
qed

subsection \<open>The insert of sale items\<close>

lemma decimal_10_2_Inr: "decimal_10_2 x = Inr y \<Longrightarrow> y = round_numeric x"
  by (simp add: decimal_10_2_def Let_def split: if_splits)

lemma decimal_10_2_null_Inr:
  "decimal_10_2_null v = Inr w \<Longrightarrow> w = map_option round_numeric v"
  by (cases v) (auto simp add: decimal_10_2_null_def dest: decimal_10_2_Inr split: sum.splits)

lemma sale_items_columns_Inr:
  "sale_items_columns vals = Inr row \<Longrightarrow>
   row = vals\<lparr>si_unit_price := round_numeric (si_unit_price vals),
              si_total_price := round_numeric (si_total_price vals)\<rparr>"
  by (auto simp add: sale_items_columns_def dest: decimal_10_2_Inr split: sum.splits)

lemma validate_stock_before_sale_Inr:
  "validate_stock_before_sale NEW d = Inr r \<Longrightarrow> r = NEW"
  by (simp add: validate_stock_before_sale_def Let_def split: option.splits if_splits)

lemma insert_sale_items_rows_Inr:
  assumes "insert_sale_items_rows vals d = Inr (news, d1)"
  shows "d1 = d\<lparr>tbl_sale_items := tbl_sale_items d @ news,
                 next_uuid := next_uuid d + length vals\<rparr>
         \<and> length news = length vals
         \<and> list_all (\<lambda>r. next_uuid d \<le> si_id r) news
         \<and> map si_sale_id news = map si_sale_id vals
         \<and> map si_product_id news = map si_product_id vals"
  using assms
proof (induction vals arbitrary: d news)
  case Nil
  then show ?case by simp
next
  case (Cons v vals)
  from Cons.prems obtain row NEW rest where
    row: "sale_items_columns v = Inr row"
    and NEW: "validate_stock_before_sale (row\<lparr>si_id := next_uuid d\<rparr>) d = Inr NEW"
    and rest: "insert_sale_items_rows vals
                 (d\<lparr>tbl_sale_items := tbl_sale_items d @ [NEW], next_uuid := next_uuid d + 1\<rparr>)
               = Inr (rest, d1)"
    and news: "news = NEW # rest"
    by (auto split: sum.splits prod.splits)
  from validate_stock_before_sale_Inr [OF NEW] sale_items_columns_Inr [OF row]
  have NEW_eq: "NEW = v\<lparr>si_unit_price := round_numeric (si_unit_price v),
                          si_total_price := round_numeric (si_total_price v),
                          si_id := next_uuid d\<rparr>"
    by simp
  from Cons.IH [OF rest] have
    d1: "d1 = d\<lparr>tbl_sale_items := tbl_sale_items d @ [NEW], next_uuid := next_uuid d + 1,
                  tbl_sale_items := (tbl_sale_items d @ [NEW]) @ rest,
                  next_uuid := next_uuid d + 1 + length vals\<rparr>"
    and len: "length rest = length vals"
    and ids: "list_all (\<lambda>r. next_uuid d + 1 \<le> si_id r) rest"
    and maps: "map si_sale_id rest = map si_sale_id vals"
      "map si_product_id rest = map si_product_id vals"
    by simp_all
  from ids have "list_all (\<lambda>r. next_uuid d \<le> si_id r) rest"
    by (rule list_all_mono) simp
  with d1 len maps show ?case
    by (simp add: news NEW_eq)
qed

lemma insert_sale_items_Inl:
  "insert_sale_items uid vals d = (Inl e, d') \<Longrightarrow> d' = d"
  by (auto simp add: insert_sale_items_def split: sum.splits prod.splits)

lemma insert_sale_items_Inr:
  assumes run: "insert_sale_items uid vals d = (Inr u, d')"
    and wf: "wf_store d"
    and vals: "list_all (\<lambda>v. si_sale_id v = sid \<and> si_product_id v \<in> set pids) vals"
  shows "\<exists>news ps es.
           d' = d\<lparr>tbl_products := ps, tbl_sale_items := tbl_sale_items d @ news,
                   tbl_audit_logs := tbl_audit_logs d @ es,
                   next_uuid := next_uuid d + length vals\<rparr>
           \<and> length news = length vals
           \<and> list_all (\<lambda>e. sale_item_entry uid sid e \<or> product_entry uid pids e) es
           \<and> audit_count ''INSERT'' ''sale_items'' es = length vals
           \<and> length vals \<le> audit_count ''UPDATE'' ''products'' es
           \<and> audit_count ''INSERT'' ''sales'' es = 0"
proof -
  from run obtain news d1 where
    rows: "insert_sale_items_rows vals d = Inr (news, d1)"
    and after: "fold_err (sale_items_after_insert uid) news d1 = Inr d'"
    by (auto simp add: insert_sale_items_def split: sum.splits prod.splits)
  from insert_sale_items_rows_Inr [OF rows] have
    d1: "d1 = d\<lparr>tbl_sale_items := tbl_sale_items d @ news,
                  next_uuid := next_uuid d + length vals\<rparr>"
    and len: "length news = length vals"
    and ids: "list_all (\<lambda>r. next_uuid d \<le> si_id r) news"
    and maps: "map si_sale_id news = map si_sale_id vals"
      "map si_product_id news = map si_product_id vals"
    by simp_all
  have sales: "tbl_sales d1 = tbl_sales d" by (simp add: d1)
  from wf have below: "s_id s < next_uuid d" if "s \<in> set (tbl_sales d)" for s
    using that by (simp add: wf_store_def list_all_iff)
  have "si_id r \<notin> set (map s_id (tbl_sales d1))" if "next_uuid d \<le> si_id r" for r
    using that below by (fastforce simp add: sales)
  with ids have fresh: "list_all (\<lambda>r. si_id r \<notin> set (map s_id (tbl_sales d1))) news"
    by (rule list_all_mono)
  have by_columns: "list_all (\<lambda>v. si_sale_id v = sid \<and> si_product_id v \<in> set pids) xs
        \<longleftrightarrow> list_all (\<lambda>k. k = sid) (map si_sale_id xs)
            \<and> list_all (\<lambda>k. k \<in> set pids) (map si_product_id xs)" for xs
    by (induction xs) auto
  from vals have "list_all (\<lambda>k. k = sid) (map si_sale_id vals)
            \<and> list_all (\<lambda>k. k \<in> set pids) (map si_product_id vals)"
    by (simp only: by_columns)
  then have "list_all (\<lambda>k. k = sid) (map si_sale_id news)
            \<and> list_all (\<lambda>k. k \<in> set pids) (map si_product_id news)"
    by (simp only: maps)
  then have kinds: "list_all (\<lambda>r. si_sale_id r = sid \<and> si_product_id r \<in> set pids) news"
    by (simp only: by_columns)
  from fold_sale_items_after_insert_Inr [OF after fresh kinds] obtain ps es where
    d': "d' = d1\<lparr>tbl_products := ps, tbl_audit_logs := tbl_audit_logs d1 @ es\<rparr>"
    and es: "list_all (\<lambda>e. sale_item_entry uid sid e \<or> product_entry uid pids e) es"
      "audit_count ''INSERT'' ''sale_items'' es = length news"
      "length news \<le> audit_count ''UPDATE'' ''products'' es"
      "audit_count ''INSERT'' ''sales'' es = 0"
    by blast
  have "d' = d\<lparr>tbl_products := ps, tbl_sale_items := tbl_sale_items d @ news,
                   tbl_audit_logs := tbl_audit_logs d @ es,
                   next_uuid := next_uuid d + length vals\<rparr>"
    by (simp add: d' d1)
  with len es show ?thesis
    by (intro exI [of _ news] exI [of _ ps] exI [of _ es]) simp
qed

subsection \<open>The insert of a sale\<close>

lemma sale_values_simps [simp]:
  "s_sale_number (sale_values st) = None"
  "s_cashier_id (sale_values st) = profile_id st"
  "s_subtotal (sale_values st) = calculateSubtotal st"
  "s_discount_amount (sale_values st) = Some (calculateDiscountAmount st)"
  "s_total_amount (sale_values st) = calculateTotal st"
  by (simp_all add: sale_values_def)

lemma sales_columns_Inr:
  "sales_columns vals = Inr row \<Longrightarrow>
   row = vals\<lparr>s_subtotal := round_numeric (s_subtotal vals),
              s_discount_value := map_option round_numeric (s_discount_value vals),
              s_discount_amount := map_option round_numeric (s_discount_amount vals),
              s_total_amount := round_numeric (s_total_amount vals)\<rparr>"
  by (auto simp add: sales_columns_def dest: decimal_10_2_Inr decimal_10_2_null_Inr
        split: sum.splits)

lemma decimal_10_2_Inl: "decimal_10_2 x = Inl e \<Longrightarrow> e = NumericValueOutOfRange"
  by (simp add: decimal_10_2_def Let_def split: if_splits)

lemma decimal_10_2_null_Inl: "decimal_10_2_null v = Inl e \<Longrightarrow> e = NumericValueOutOfRange"
  by (cases v) (auto simp add: decimal_10_2_null_def dest: decimal_10_2_Inl split: sum.splits)

lemma sales_columns_Inl: "sales_columns vals = Inl e \<Longrightarrow> e = NumericValueOutOfRange"
  by (auto simp add: sales_columns_def dest: decimal_10_2_Inl decimal_10_2_null_Inl
        split: sum.splits)

lemma sale_number_text_nonempty: "sale_number_text k \<noteq> []"
  by (simp add: sale_number_text_def)

text \<open>The insert of a row that comes without a sale number, once its values are converted.\<close>

lemma insert_sales_generated:
  assumes "s_sale_number vals = None" and "sales_columns vals = Inr row"
  shows "insert_sales uid vals d =
     (if s_cashier_id vals = None
        then (Inl (NotNullViolation ''cashier_id''), d\<lparr>sale_number_seq := sale_number_seq d + 1\<rparr>)
      else if Some (sale_number_text (sale_number_seq d)) \<in> set (map s_sale_number (tbl_sales d))
        then (Inl (UniqueViolation ''sale_number''), d\<lparr>sale_number_seq := sale_number_seq d + 1\<rparr>)
      else (Inr (row\<lparr>s_id := next_uuid d,
                     s_sale_number := Some (sale_number_text (sale_number_seq d))\<rparr>),
            d\<lparr>tbl_sales := tbl_sales d @
                   [row\<lparr>s_id := next_uuid d,
                        s_sale_number := Some (sale_number_text (sale_number_seq d))\<rparr>],
              tbl_audit_logs := tbl_audit_logs d @
                   [audit_values uid ''sales'' (On_INSERT (Sales_json
                      (row\<lparr>s_id := next_uuid d,
                           s_sale_number := Some (sale_number_text (sale_number_seq d))\<rparr>))),
                    audit_values uid ''sales'' (On_INSERT (Sales_json
                      (row\<lparr>s_id := next_uuid d,
                           s_sale_number := Some (sale_number_text (sale_number_seq d))\<rparr>)))],
              sale_number_seq := sale_number_seq d + 1,
              next_uuid := next_uuid d + 1\<rparr>))"
proof -
  from sales_columns_Inr [OF assms(2)] assms(1)
  have row: "s_sale_number row = None" "s_cashier_id row = s_cashier_id vals"
    by simp_all
  show ?thesis
    by (simp add: insert_sales_def assms(2) set_sale_number_def nextval_def row
          sale_number_text_nonempty create_audit_log_def audit_trigger_function_def Let_def)
qed

lemma insert_sales_Inr:
  assumes "s_sale_number vals = None" and "insert_sales uid vals d = (Inr NEW, d1)"
  shows "NEW = vals\<lparr>s_subtotal := round_numeric (s_subtotal vals),
                     s_discount_value := map_option round_numeric (s_discount_value vals),
                     s_discount_amount := map_option round_numeric (s_discount_amount vals),
                     s_total_amount := round_numeric (s_total_amount vals),
                     s_id := next_uuid d,
                     s_sale_number := Some (sale_number_text (sale_number_seq d))\<rparr>"
    and "d1 = d\<lparr>tbl_sales := tbl_sales d @ [NEW],
                  tbl_audit_logs := tbl_audit_logs d @
                    [audit_values uid ''sales'' (On_INSERT (Sales_json NEW)),
                     audit_values uid ''sales'' (On_INSERT (Sales_json NEW))],
                  sale_number_seq := sale_number_seq d + 1,
                  next_uuid := next_uuid d + 1\<rparr>"
    and "Some (sale_number_text (sale_number_seq d)) \<notin> set (map s_sale_number (tbl_sales d))"
    and "s_cashier_id vals \<noteq> None"
proof -
  have eq: "insert_sales uid vals d = (Inr NEW, d1)" by fact
  from eq obtain row where row: "sales_columns vals = Inr row"
    by (cases "sales_columns vals") (simp_all add: insert_sales_def)
  note gen = insert_sales_generated [OF assms(1) row]
  show c: "s_cashier_id vals \<noteq> None"
    using eq by (simp add: gen split: if_splits)
  show u: "Some (sale_number_text (sale_number_seq d)) \<notin> set (map s_sale_number (tbl_sales d))"
    using eq c by (simp add: gen split: if_splits)
  have n: "NEW = row\<lparr>s_id := next_uuid d,
                       s_sale_number := Some (sale_number_text (sale_number_seq d))\<rparr>"
    using eq c u by (simp add: gen)
  show "NEW = vals\<lparr>s_subtotal := round_numeric (s_subtotal vals),
                     s_discount_value := map_option round_numeric (s_discount_value vals),
                     s_discount_amount := map_option round_numeric (s_discount_amount vals),
                     s_total_amount := round_numeric (s_total_amount vals),
                     s_id := next_uuid d,
                     s_sale_number := Some (sale_number_text (sale_number_seq d))\<rparr>"
    by (simp add: n sales_columns_Inr [OF row])
  show "d1 = d\<lparr>tbl_sales := tbl_sales d @ [NEW],
                  tbl_audit_logs := tbl_audit_logs d @
                    [audit_values uid ''sales'' (On_INSERT (Sales_json NEW)),
                     audit_values uid ''sales'' (On_INSERT (Sales_json NEW))],
                  sale_number_seq := sale_number_seq d + 1,
                  next_uuid := next_uuid d + 1\<rparr>"
    using eq c u by (simp add: gen n)
qed

lemma insert_sales_Inl:
  assumes "s_sale_number vals = None" and "insert_sales uid vals d = (Inl e, d1)"
  shows "(e = NumericValueOutOfRange \<and> d1 = d)
         \<or> ((e = NotNullViolation ''cashier_id'' \<or> e = UniqueViolation ''sale_number'')
             \<and> d1 = d\<lparr>sale_number_seq := sale_number_seq d + 1\<rparr>)"
proof (cases "sales_columns vals")
  case (Inl e')
  with assms(2) have "e = e'" "d1 = d" by (simp_all add: insert_sales_def)
  with sales_columns_Inl [OF Inl] show ?thesis by simp
next
  case (Inr row)
  from assms(2) show ?thesis
    by (auto simp add: insert_sales_generated [OF assms(1) Inr] split: if_splits)
qed

subsection \<open>The outcomes of processSale\<close>

lemma processSale_rejected:
  "cart st = [] \<Longrightarrow> processSale uid st d = (Inl EmptyCart, d)"
  "cart st \<noteq> [] \<Longrightarrow> calculateTotal st < 0 \<Longrightarrow> processSale uid st d = (Inl NegativeTotal, d)"
  "cart st \<noteq> [] \<Longrightarrow> 0 \<le> calculateTotal st \<Longrightarrow> paymentMethod st = cash \<Longrightarrow>
     amountPaid st \<noteq> 0 \<Longrightarrow> amountPaid st < calculateTotal st \<Longrightarrow>
     processSale uid st d = (Inl InsufficientPayment, d)"
  by (simp_all add: processSale_def Let_def)

lemma processSale_requests:
  assumes "checks_pass st"
  shows "processSale uid st d =
          (case insert_sales uid (sale_values st) d of
             (Inl saleError, d1) \<Rightarrow> (Inl saleError, d1)
           | (Inr saleData, d1) \<Rightarrow>
               (case insert_sale_items uid (map (sale_item_values (s_id saleData)) (cart st)) d1 of
                  (Inl itemsError, d2) \<Rightarrow> (Inl itemsError, d2)
                | (Inr _, d2) \<Rightarrow>
                    (case List.find (\<lambda>s. s_id s = s_id saleData) (tbl_sales d2) of
                       None \<Rightarrow> (Inl NoRowReturned, d2)
                     | Some sale \<Rightarrow>
                         (Inr \<lparr>completeSale = sale,
                               receipt_items =
                                 filter (\<lambda>r. si_sale_id r = s_id saleData) (tbl_sale_items d2),
                               tax_amount = calculateTaxAmount st,
                               change_due = calculateChangeDue st,
                               amount_paid = amountPaid st\<rparr>, d2))))"
proof -
  from assms have cart: "cart st \<noteq> []" and total: "\<not> calculateTotal st < 0"
    and paid: "\<not> (\<not> (paymentMethod st = cash \<and> amountPaid st = 0)
                \<and> paymentMethod st = cash \<and> amountPaid st < calculateTotal st)"
    by (auto simp add: checks_pass_def)
  show ?thesis
    unfolding processSale_def Let_def using cart total paid
    by (simp only: if_not_P if_False)
qed

lemma checks_pass_cases:
  obtains "cart st = []"
  | "cart st \<noteq> []" "calculateTotal st < 0"
  | "cart st \<noteq> []" "0 \<le> calculateTotal st" "paymentMethod st = cash" "amountPaid st \<noteq> 0"
      "amountPaid st < calculateTotal st"
  | "checks_pass st"
proof (cases "checks_pass st")
  case True
  then show thesis by (rule that(4))
next
  case False
  show thesis
  proof (cases "cart st = []")
    case True
    then show thesis by (rule that(1))
  next
    case nonempty: False
    show thesis
    proof (cases "calculateTotal st < 0")
      case True
      with nonempty show thesis by (rule that(2))
    next
      case nonneg: False
      then have total: "0 \<le> calculateTotal st" by simp
      from False nonempty total
      have "paymentMethod st = cash" "amountPaid st \<noteq> 0" "amountPaid st < calculateTotal st"
        by (auto simp add: checks_pass_def)
      with nonempty total show thesis by (intro that(3))
    qed
  qed
qed

lemma processSale_sale_failed:
  assumes "checks_pass st" and "insert_sales uid (sale_values st) d = (Inl e, d1)"
  shows "processSale uid st d = (Inl e, d1)"
  by (simp add: processSale_requests [OF assms(1)] assms(2))

lemma processSale_items_failed:
  assumes "checks_pass st" and "insert_sales uid (sale_values st) d = (Inr saleData, d1)"
    and "insert_sale_items uid (map (sale_item_values (s_id saleData)) (cart st)) d1 = (Inl e, d2)"
  shows "processSale uid st d = (Inl e, d1)"
  using insert_sale_items_Inl [OF assms(3)]
  by (simp add: processSale_requests [OF assms(1)] assms(2) assms(3))

lemma find_append_last:
  "list_all (\<lambda>x. \<not> P x) xs \<Longrightarrow> P y \<Longrightarrow> List.find P (xs @ [y]) = Some y"
  by (induction xs) simp_all

lemma sales_below_no_match:
  "list_all (\<lambda>s. s_id s < n) sales \<Longrightarrow> list_all (\<lambda>s. \<not> s_id s = n) sales"
  by (induction sales) auto

lemma cart_lines:
  "list_all (\<lambda>v. si_sale_id v = sid \<and> si_product_id v \<in> set (map (\<lambda>i. id (product i)) items))
     (map (sale_item_values sid) items)"
  by (induction items) (auto simp add: sale_item_values_def list_all_iff)

text \<open>A sale whose two inserts went through, in a store whose sale identifiers are in
  use: the row of the sale, the store after it and the receipt.\<close>

lemma processSale_items_done:
  assumes pass: "checks_pass st" and wf: "wf_store d"
    and sale: "insert_sales uid (sale_values st) d = (Inr saleData, d1)"
    and lines: "insert_sale_items uid (map (sale_item_values (s_id saleData)) (cart st)) d1
                  = (Inr u, d2)"
  shows "processSale uid st d =
           (Inr \<lparr>completeSale = saleData,
                 receipt_items = filter (\<lambda>r. si_sale_id r = s_id saleData) (tbl_sale_items d2),
                 tax_amount = calculateTaxAmount st,
                 change_due = calculateChangeDue st,
                 amount_paid = amountPaid st\<rparr>, d2)"
    and "\<exists>news ps es.
           d2 = d\<lparr>tbl_products := ps, tbl_sales := tbl_sales d @ [saleData],
                   tbl_sale_items := tbl_sale_items d @ news,
                   tbl_audit_logs := tbl_audit_logs d @
                     [audit_values uid ''sales'' (On_INSERT (Sales_json saleData)),
                      audit_values uid ''sales'' (On_INSERT (Sales_json saleData))] @ es,
                   sale_number_seq := sale_number_seq d + 1,
                   next_uuid := next_uuid d + 1 + length (cart st)\<rparr>
           \<and> length news = length (cart st)
           \<and> list_all (\<lambda>e. sale_item_entry uid (s_id saleData) e
                            \<or> product_entry uid (map (\<lambda>i. id (product i)) (cart st)) e) es
           \<and> audit_count ''INSERT'' ''sale_items'' es = length (cart st)
           \<and> length (cart st) \<le> audit_count ''UPDATE'' ''products'' es
           \<and> audit_count ''INSERT'' ''sales'' es = 0"
proof -
  have none: "s_sale_number (sale_values st) = None" by simp
  note s = insert_sales_Inr [OF none sale]
  have sid: "s_id saleData = next_uuid d" by (simp add: s(1))
  from wf have below: "list_all (\<lambda>s. s_id s < next_uuid d) (tbl_sales d)"
    by (simp add: wf_store_def)
  then have "list_all (\<lambda>s. s_id s < next_uuid d + 1) (tbl_sales d)"
    by (rule list_all_mono) simp
  then have wf1: "wf_store d1"
    by (simp add: wf_store_def s(2) sid)
  from insert_sale_items_Inr [OF lines wf1 cart_lines] obtain news ps es where
    d2: "d2 = d1\<lparr>tbl_products := ps, tbl_sale_items := tbl_sale_items d1 @ news,
                  tbl_audit_logs := tbl_audit_logs d1 @ es,
                  next_uuid := next_uuid d1 + length (map (sale_item_values (s_id saleData)) (cart st))\<rparr>"
    and es: "length news = length (map (sale_item_values (s_id saleData)) (cart st))"
      "list_all (\<lambda>e. sale_item_entry uid (s_id saleData) e
                       \<or> product_entry uid (map (\<lambda>i. id (product i)) (cart st)) e) es"
      "audit_count ''INSERT'' ''sale_items'' es
         = length (map (sale_item_values (s_id saleData)) (cart st))"
      "length (map (sale_item_values (s_id saleData)) (cart st))
         \<le> audit_count ''UPDATE'' ''products'' es"
      "audit_count ''INSERT'' ''sales'' es = 0"
    by blast
  have eq: "d2 = d\<lparr>tbl_products := ps, tbl_sales := tbl_sales d @ [saleData],
                   tbl_sale_items := tbl_sale_items d @ news,
                   tbl_audit_logs := tbl_audit_logs d @
                     [audit_values uid ''sales'' (On_INSERT (Sales_json saleData)),
                      audit_values uid ''sales'' (On_INSERT (Sales_json saleData))] @ es,
                   sale_number_seq := sale_number_seq d + 1,
                   next_uuid := next_uuid d + 1 + length (cart st)\<rparr>"
    using s(2) by (simp add: d2)
  from eq es show "\<exists>news ps es.
           d2 = d\<lparr>tbl_products := ps, tbl_sales := tbl_sales d @ [saleData],
                   tbl_sale_items := tbl_sale_items d @ news,
                   tbl_audit_logs := tbl_audit_logs d @
                     [audit_values uid ''sales'' (On_INSERT (Sales_json saleData)),
                      audit_values uid ''sales'' (On_INSERT (Sales_json saleData))] @ es,
                   sale_number_seq := sale_number_seq d + 1,
                   next_uuid := next_uuid d + 1 + length (cart st)\<rparr>
           \<and> length news = length (cart st)
           \<and> list_all (\<lambda>e. sale_item_entry uid (s_id saleData) e
                            \<or> product_entry uid (map (\<lambda>i. id (product i)) (cart st)) e) es
           \<and> audit_count ''INSERT'' ''sale_items'' es = length (cart st)
           \<and> length (cart st) \<le> audit_count ''UPDATE'' ''products'' es
           \<and> audit_count ''INSERT'' ''sales'' es = 0"
    by (intro exI [of _ news] exI [of _ ps] exI [of _ es]) simp
  have sales: "tbl_sales d2 = tbl_sales d @ [saleData]"
    by (subst eq) simp
  from below have "list_all (\<lambda>s. \<not> s_id s = next_uuid d) (tbl_sales d)"
    by (rule sales_below_no_match)
  then have "List.find (\<lambda>s. s_id s = s_id saleData) (tbl_sales d2) = Some saleData"
    by (simp add: sales sid find_append_last)
  then show "processSale uid st d =
           (Inr \<lparr>completeSale = saleData,
                 receipt_items = filter (\<lambda>r. si_sale_id r = s_id saleData) (tbl_sale_items d2),
                 tax_amount = calculateTaxAmount st,
                 change_due = calculateChangeDue st,
                 amount_paid = amountPaid st\<rparr>, d2)"
    by (simp add: processSale_requests [OF pass] sale lines)
qed


text \<open>A call of \<open>processSale\<close> that returns an error.\<close>

lemma processSale_failed:
  assumes wf: "wf_store d" and run: "processSale uid st d = (Inl e, d')"
  obtains (rejected) "d' = d" "\<not> checks_pass st"
  | (sale_failed) "checks_pass st" "insert_sales uid (sale_values st) d = (Inl e, d')"
  | (items_failed) saleData where "checks_pass st"
      "insert_sales uid (sale_values st) d = (Inr saleData, d')"
      "insert_sale_items uid (map (sale_item_values (s_id saleData)) (cart st)) d' = (Inl e, d')"
proof (cases st rule: checks_pass_cases)
  case 1
  from processSale_rejected(1) [OF 1, of uid d] run 1 show ?thesis
    by (intro rejected) (simp_all add: checks_pass_def)
next
  case 2
  from processSale_rejected(2) [OF 2, of uid d] run 2 show ?thesis
    by (intro rejected) (simp_all add: checks_pass_def)
next
  case 3
  from processSale_rejected(3) [OF 3, of uid d] run 3 show ?thesis
    by (intro rejected) (simp_all add: checks_pass_def)
next
  case 4
  obtain r1 d1 where sale: "insert_sales uid (sale_values st) d = (r1, d1)"
    by (cases "insert_sales uid (sale_values st) d")
  show ?thesis
  proof (cases r1)
    case (Inl e1)
    from processSale_sale_failed [OF 4 sale [unfolded Inl]] run
    have "e1 = e" "d1 = d'" by simp_all
    with 4 sale Inl show ?thesis by (intro sale_failed) simp_all
  next
    case (Inr saleData)
    note sale = sale [unfolded Inr]
    obtain r2 d2 where lines:
      "insert_sale_items uid (map (sale_item_values (s_id saleData)) (cart st)) d1 = (r2, d2)"
      by (cases "insert_sale_items uid (map (sale_item_values (s_id saleData)) (cart st)) d1")
    show ?thesis
    proof (cases r2)
      case (Inl e2)
      note lines = lines [unfolded Inl]
      from processSale_items_failed [OF 4 sale lines] run
      have "e2 = e" "d1 = d'" by simp_all
      moreover from insert_sale_items_Inl [OF lines] have "d2 = d1" .
      ultimately show ?thesis using 4 sale lines
        by (intro items_failed [of saleData]) simp_all
    next
      case (Inr u)
      from processSale_items_done(1) [OF 4 wf sale lines [unfolded Inr]] run
      show ?thesis by simp
    qed
  qed
qed

subsection \<open>Cart totals\<close>




lemma wf_store_example: "wf_store example_store"
  by (simp add: wf_store_def example_store_def)




subsection \<open>Failed sales\<close>

lemma processSale_example_sixty:
  "checks_pass example_state_sixty"
  "insert_sales (Some 7) (sale_values example_state_sixty) example_store
     = (Inr example_orphan_sale, example_store_orphan)"
  "insert_sale_items (Some 7)
     (map (sale_item_values (s_id example_orphan_sale)) (cart example_state_sixty))
     example_store_orphan
     = (Inl (InsufficientStock 1 60 50), example_store_orphan)"
  "processSale (Some 7) example_state_sixty example_store
     = (Inl (InsufficientStock 1 60 50), example_store_orphan)"
  by code_simp+

text \<open>
  C2 (amended). A failed \<open>processSale\<close> never leaves sale items, a stock decrement or an
  alert change. A rejection by one of the three checks before the first request (empty
  cart, negative total, insufficient cash) leaves the store untouched. A failed insert of
  the sale leaves no row and no audit entry; at most the sale number sequence has
  advanced. A failure of the sale-items insert (insufficient stock, or any error raised by
  a trigger) rolls back that statement only: the sale row inserted by the preceding
  request and the audit entries of that insert remain.
\<close>

theorem failed_sale_side_effects:
  "(cart st = [] \<longrightarrow> processSale uid st d = (Inl EmptyCart, d))
   \<and> (cart st \<noteq> [] \<and> calculateTotal st < 0 \<longrightarrow> processSale uid st d = (Inl NegativeTotal, d))
   \<and> (cart st \<noteq> [] \<and> 0 \<le> calculateTotal st \<and> paymentMethod st = cash
        \<and> amountPaid st \<noteq> 0 \<and> amountPaid st < calculateTotal st \<longrightarrow>
        processSale uid st d = (Inl InsufficientPayment, d))
   \<and> (checks_pass st \<and> insert_sales uid (sale_values st) d = (Inl e, d1) \<longrightarrow>
        processSale uid st d = (Inl e, d1)
        \<and> (d1 = d \<or> d1 = d\<lparr>sale_number_seq := sale_number_seq d + 1\<rparr>))
   \<and> (checks_pass st \<and> insert_sales uid (sale_values st) d = (Inr saleData, d1)
        \<and> insert_sale_items uid (map (sale_item_values (s_id saleData)) (cart st)) d1
            = (Inl e, dn) \<longrightarrow>
        processSale uid st d = (Inl e, d1)
        \<and> d1 = d\<lparr>tbl_sales := tbl_sales d @ [saleData],
                   tbl_audit_logs := tbl_audit_logs d @
                     [audit_values uid ''sales'' (On_INSERT (Sales_json saleData)),
                      audit_values uid ''sales'' (On_INSERT (Sales_json saleData))],
                   sale_number_seq := sale_number_seq d + 1,
                   next_uuid := next_uuid d + 1\<rparr>)
   \<and> (wf_store d \<and> processSale uid st d = (Inl e, d') \<longrightarrow>
        tbl_products d' = tbl_products d
        \<and> tbl_sale_items d' = tbl_sale_items d
        \<and> tbl_low_stock_alerts d' = tbl_low_stock_alerts d)"
proof (intro conjI impI)
  assume "cart st = []"
  then show "processSale uid st d = (Inl EmptyCart, d)"
    by (rule processSale_rejected(1))
next
  assume "cart st \<noteq> [] \<and> calculateTotal st < 0"
  then show "processSale uid st d = (Inl NegativeTotal, d)"
    by (simp add: processSale_rejected(2))
next
  assume "cart st \<noteq> [] \<and> 0 \<le> calculateTotal st \<and> paymentMethod st = cash
        \<and> amountPaid st \<noteq> 0 \<and> amountPaid st < calculateTotal st"
  then show "processSale uid st d = (Inl InsufficientPayment, d)"
    by (simp add: processSale_rejected(3))
next
  assume a: "checks_pass st \<and> insert_sales uid (sale_values st) d = (Inl e, d1)"
  then show "processSale uid st d = (Inl e, d1)"
    by (simp add: processSale_sale_failed)
  have "s_sale_number (sale_values st) = None" by simp
  from insert_sales_Inl [OF this conjunct2 [OF a]]
  show "d1 = d \<or> d1 = d\<lparr>sale_number_seq := sale_number_seq d + 1\<rparr>"
    by blast
next
  assume a: "checks_pass st \<and> insert_sales uid (sale_values st) d = (Inr saleData, d1)
        \<and> insert_sale_items uid (map (sale_item_values (s_id saleData)) (cart st)) d1
            = (Inl e, dn)"
  then have pass: "checks_pass st"
    and sale: "insert_sales uid (sale_values st) d = (Inr saleData, d1)"
    and lines: "insert_sale_items uid (map (sale_item_values (s_id saleData)) (cart st)) d1
            = (Inl e, dn)"
    by simp_all
  from pass sale lines show "processSale uid st d = (Inl e, d1)"
    by (rule processSale_items_failed)
  have "s_sale_number (sale_values st) = None" by simp
  from insert_sales_Inr(2) [OF this sale]
  show "d1 = d\<lparr>tbl_sales := tbl_sales d @ [saleData],
                   tbl_audit_logs := tbl_audit_logs d @
                     [audit_values uid ''sales'' (On_INSERT (Sales_json saleData)),
                      audit_values uid ''sales'' (On_INSERT (Sales_json saleData))],
                   sale_number_seq := sale_number_seq d + 1,
                   next_uuid := next_uuid d + 1\<rparr>" .
next
  assume a: "wf_store d \<and> processSale uid st d = (Inl e, d')"
  then have wf: "wf_store d" and run: "processSale uid st d = (Inl e, d')" by simp_all
  have none: "s_sale_number (sale_values st) = None" by simp
  from wf run
  have "tbl_products d' = tbl_products d \<and> tbl_sale_items d' = tbl_sale_items d
        \<and> tbl_low_stock_alerts d' = tbl_low_stock_alerts d"
  proof (cases rule: processSale_failed)
    case rejected
    then show ?thesis by simp
  next
    case sale_failed
    from insert_sales_Inl [OF none sale_failed(2)] show ?thesis by auto
  next
    case (items_failed saleData)
    from insert_sales_Inr(2) [OF none items_failed(2)] show ?thesis
      by (cases d) auto
  qed
  then show "tbl_products d' = tbl_products d" "tbl_sale_items d' = tbl_sale_items d"
    "tbl_low_stock_alerts d' = tbl_low_stock_alerts d"
    by simp_all
qed

text \<open>The cart that asks for 60 units of a product with 50 in stock.\<close>

theorem failed_sale_side_effects_witness:
  "processSale (Some 7) example_state_sixty example_store
     = (Inl (InsufficientStock 1 60 50), example_store_orphan)
   \<and> tbl_products example_store_orphan = tbl_products example_store
   \<and> tbl_sale_items example_store_orphan = tbl_sale_items example_store
   \<and> tbl_low_stock_alerts example_store_orphan = tbl_low_stock_alerts example_store
   \<and> tbl_sales example_store_orphan = [example_orphan_sale]"
proof -
  note inst = failed_sale_side_effects
        [where st = example_state_sixty and uid = "Some 7" and d = example_store
           and e = "InsufficientStock 1 60 50" and saleData = example_orphan_sale
           and dn = example_store_orphan and ?d1.0 = example_store_orphan
           and d' = example_store_orphan]
  from inst processSale_example_sixty(1-3)
  have run: "processSale (Some 7) example_state_sixty example_store
     = (Inl (InsufficientStock 1 60 50), example_store_orphan)"
    by blast
  from inst wf_store_example run
  have frame: "tbl_products example_store_orphan = tbl_products example_store"
    "tbl_sale_items example_store_orphan = tbl_sale_items example_store"
    "tbl_low_stock_alerts example_store_orphan = tbl_low_stock_alerts example_store"
    by blast+
  have "tbl_sales example_store_orphan = [example_orphan_sale]"
    by (simp add: example_store_orphan_def)
  with run frame show ?thesis by (intro conjI)
qed

text \<open>The store has 50 units, the cart asks for 60: the sale is rejected with
  \<open>InsufficientStock\<close>, and the store is not what it was: the row of the rejected sale and
  two audit entries are in it, and the sale number \<open>BD-000001\<close> is used up.\<close>

theorem rejected_sale_leaves_sale_row_counterexample:
  "processSale (Some 7) example_state_sixty example_store
     = (Inl (InsufficientStock 1 60 50), example_store_orphan)
   \<and> example_store_orphan \<noteq> example_store
   \<and> tbl_sales example_store = []
   \<and> tbl_sales example_store_orphan = [example_orphan_sale]
   \<and> tbl_audit_logs example_store = []
   \<and> length (tbl_audit_logs example_store_orphan) = 2
   \<and> sale_number_seq example_store = 1
   \<and> sale_number_seq example_store_orphan = 2"
proof -
  have sales: "tbl_sales example_store = []"
    "tbl_sales example_store_orphan = [example_orphan_sale]"
    by (simp_all add: example_store_orphan_def example_store_def)
  then have "tbl_sales example_store_orphan \<noteq> tbl_sales example_store" by simp
  then have changed: "example_store_orphan \<noteq> example_store" by auto
  have rest: "tbl_audit_logs example_store = []"
    "length (tbl_audit_logs example_store_orphan) = 2"
    "sale_number_seq example_store = 1"
    "sale_number_seq example_store_orphan = 2"
    by (simp_all add: example_store_orphan_def example_store_def)
  from processSale_example_sixty(4) changed sales rest show ?thesis
    by (intro conjI)
qed

subsection \<open>Audit entries of a sale\<close>




subsection \<open>Where the stored totals come from\<close>





subsection \<open>The text of a sale number\<close>











subsection \<open>Sale numbers of the reachable stores\<close>





lemma acknowledgeAlert_frame [simp]:
  "tbl_products (acknowledgeAlert now alertId d) = tbl_products d"
  "tbl_sales (acknowledgeAlert now alertId d) = tbl_sales d"
  "tbl_sale_items (acknowledgeAlert now alertId d) = tbl_sale_items d"
  "tbl_audit_logs (acknowledgeAlert now alertId d) = tbl_audit_logs d"
  "sale_number_seq (acknowledgeAlert now alertId d) = sale_number_seq d"
  "next_uuid (acknowledgeAlert now alertId d) = next_uuid d"
  by (simp_all add: acknowledgeAlert_def)









end
